theory Spec2Isabelle
  imports Complex_Main
begin

section \<open>Library functions the code calls\<close>

text \<open>
  Go strings and byte slices are byte sequences; UUIDs are kept in their canonical text
  form; instants and durations are integer nanoseconds (\<open>time.Time\<close>, \<open>time.Duration\<close>).

  Functions of the Go standard library and of third-party packages are parameters of the
  model, collected in one record: the code is verified for every implementation of them,
  and a theorem names the property of a library function it relies on.
  \<^item> \<open>TrimSpace\<close>, \<open>ToLower\<close>, \<open>ToUpper\<close>: package \<open>strings\<close>;
  \<^item> \<open>uuid_Parse\<close>: \<open>uuid.Parse\<close>, \<open>None\<close> when it returns an error;
  \<^item> \<open>sha256_hex\<close>: the SHA-256 digest of the bytes written, hex-encoded;
  \<^item> \<open>json_Marshal\<close>: the JSON encoding Fiber's \<open>c.JSON\<close> writes, \<open>json_ctype\<close> the
    content type it sets, \<open>default_ctype\<close> the content type a response reports when none
    was set;
  \<^item> \<open>Bind_JSON\<close>: \<open>c.Bind().JSON\<close> into \<open>withdrawalRequest\<close>, giving its \<open>AmountMinor\<close>,
    \<open>None\<close> when binding fails;
  \<^item> \<open>Itoa\<close>: \<open>strconv.FormatInt\<close> in base 10;
  \<^item> \<open>Seconds_int\<close>: \<open>int(d.Seconds())\<close> of a duration \<open>d\<close>, which \<open>time.Duration.Seconds\<close>
    computes in \<open>float64\<close>.

  Amounts, balances and versions are integers; where the code or the database computes
  on 64-bit values, the range check or the wrap-around is written out.
\<close>

type_synonym uuid = string
type_synonym bytes = string
type_synonym time = int

datatype jv = JStr string | JInt int | JTime time

record golib =
  TrimSpace :: "string \<Rightarrow> string"
  ToLower :: "string \<Rightarrow> string"
  ToUpper :: "string \<Rightarrow> string"
  uuid_Parse :: "string \<Rightarrow> uuid option"
  sha256_hex :: "bytes \<Rightarrow> string"
  json_Marshal :: "(string \<times> jv) list \<Rightarrow> bytes"
  json_ctype :: string
  default_ctype :: string
  Bind_JSON :: "bytes \<Rightarrow> int option"
  Itoa :: "int \<Rightarrow> string"
  Seconds_int :: "int \<Rightarrow> int"

section \<open>The relational store\<close>

text \<open>
  The three tables of the wallet database. \<open>wallets.user_id\<close> is \<open>UNIQUE NOT NULL\<close>, so the
  table is a map from the user id to the rest of the row; \<open>withdraw_idempotency\<close> has a
  unique index on \<open>(scope, idempotency_key)\<close> and is a map from that pair. The ledger is
  append-only and kept in insertion order.
\<close>

record wallet_row =
  w_id :: uuid
  w_balance_minor :: int
  w_currency :: string
  w_version :: int
  w_created_at :: time
  w_updated_at :: time

record ledger_row =
  l_id :: uuid
  l_wallet_id :: uuid
  l_entry_type :: string
  l_amount_minor :: int
  l_balance_after_minor :: int
  l_reference_id :: "string option"
  l_chain_id :: "string option"
  l_created_at :: time

record idem_row =
  i_id :: uuid
  i_request_hash :: string
  i_status :: string
  i_response_status :: "int option"
  i_response_body :: "bytes option"
  i_response_content_type :: "string option"
  i_locked_until :: time
  i_created_at :: time
  i_updated_at :: time
  i_completed_at :: "time option"

record database =
  wallets :: "uuid \<rightharpoonup> wallet_row"
  wallet_ledger :: "ledger_row list"
  withdraw_idempotency :: "(string \<times> string) \<rightharpoonup> idem_row"

text \<open>
  A connection: the committed database and the statements issued on it so far, in order.
  A transaction works on a copy of the committed database; only a successful \<open>COMMIT\<close>
  installs the copy, and a rollback (the deferred \<open>tx.Rollback()\<close>) discards it. Calls
  run one after the other: the interleaving of concurrent transactions is the database's
  business (row locks, the re-evaluated \<open>WHERE\<close> clause) and is not modelled.
\<close>

datatype stmt =
    BEGIN | COMMIT | ROLLBACK
  | UPDATE_wallets | SELECT_EXISTS_wallets | INSERT_wallet_ledger
  | SELECT_idempotency_FOR_UPDATE | INSERT_idempotency
  | UPDATE_idempotency_reacquire | UPDATE_idempotency_complete

record conn =
  stored :: database
  stmts :: "stmt list"

definition issue :: "stmt \<Rightarrow> conn \<Rightarrow> conn" where
  "issue s c = c\<lparr>stmts := stmts c @ [s]\<rparr>"

text \<open>
  What the database and its driver decide, per call: whether a statement fails (driver
  error, cancelled context, constraint violation), the database clock \<open>now()\<close> and the
  value of \<open>gen_random_uuid()\<close>.
\<close>

record pg_env =
  begin_err :: bool
  withdraw_err :: bool
  exists_err :: bool
  insert_err :: bool
  commit_err :: bool
  pg_now :: time
  pg_uuid :: uuid

datatype 'a sql_result = SqlErr | NoRows | Row 'a

definition bigint_ok :: "int \<Rightarrow> bool" where
  "bigint_ok x = (- (2 ^ 63) \<le> x \<and> x < 2 ^ 63)"

section \<open>The ledger store\<close>

record WithdrawRow =
  wr_WalletID :: uuid
  wr_UserID :: string
  wr_BalanceMinor :: int
  wr_Currency :: string
  wr_UpdatedAt :: time

record InsertWalletLedgerParams =
  p_WalletID :: uuid
  p_EntryType :: string
  p_AmountMinor :: int
  p_BalanceAfterMinor :: int
  p_ReferenceID :: "string option"
  p_ChainID :: "string option"

record WalletBalance =
  wb_UserID :: string
  wb_BalanceMinor :: int
  wb_Currency :: string
  wb_UpdatedAt :: time

text \<open>
  The query \<open>WithdrawWalletBalanceByUserID\<close>: one \<open>UPDATE ... WHERE user_id = $2 AND
  balance_minor >= $1 RETURNING ...\<close>. A \<open>bigint\<close> result out of range is an error of the
  statement, as in PostgreSQL.
\<close>

definition q_WithdrawWalletBalanceByUserID ::
  "pg_env \<Rightarrow> database \<Rightarrow> int \<Rightarrow> uuid \<Rightarrow> WithdrawRow sql_result \<times> database" where
  "q_WithdrawWalletBalanceByUserID env tx amount_minor user_id =
     (if withdraw_err env then (SqlErr, tx)
      else case wallets tx user_id of
        None \<Rightarrow> (NoRows, tx)
      | Some w \<Rightarrow>
          if w_balance_minor w \<ge> amount_minor then
            (if bigint_ok (w_balance_minor w - amount_minor) \<and> bigint_ok (w_version w + 1) then
               (let w' = w\<lparr>w_balance_minor := w_balance_minor w - amount_minor,
                            w_version := w_version w + 1,
                            w_updated_at := pg_now env\<rparr>
                in (Row \<lparr>wr_WalletID = w_id w', wr_UserID = user_id,
                          wr_BalanceMinor = w_balance_minor w', wr_Currency = w_currency w',
                          wr_UpdatedAt = w_updated_at w'\<rparr>,
                    tx\<lparr>wallets := (wallets tx)(user_id \<mapsto> w')\<rparr>))
             else (SqlErr, tx))
          else (NoRows, tx))"

definition q_HasWalletByUserID :: "pg_env \<Rightarrow> database \<Rightarrow> uuid \<Rightarrow> bool sql_result" where
  "q_HasWalletByUserID env tx user_id =
     (if exists_err env then SqlErr else Row (wallets tx user_id \<noteq> None))"

definition q_InsertWalletLedger ::
  "pg_env \<Rightarrow> database \<Rightarrow> InsertWalletLedgerParams \<Rightarrow> database option" where
  "q_InsertWalletLedger env tx p =
     (if insert_err env then None
      else Some (tx\<lparr>wallet_ledger := wallet_ledger tx @
             [\<lparr>l_id = pg_uuid env, l_wallet_id = p_WalletID p, l_entry_type = p_EntryType p,
               l_amount_minor = p_AmountMinor p, l_balance_after_minor = p_BalanceAfterMinor p,
               l_reference_id = p_ReferenceID p, l_chain_id = p_ChainID p,
               l_created_at = pg_now env\<rparr>]\<rparr>))"

datatype repo_error =
    ErrInvalidUserID | ErrInvalidAmount | ErrWalletNotFound | ErrInsufficientBalance
  | ErrStartTransaction | ErrWithdrawQuery | ErrCheckExistence | ErrInsertLedger
  | ErrCommitTransaction

text \<open>Go's unary minus on \<open>int64\<close>: it wraps at the least value.\<close>

definition neg64 :: "int \<Rightarrow> int" where
  "neg64 x = (if x = - (2 ^ 63) then x else - x)"

text \<open>
  \<open>WithdrawBalanceRepository.WithdrawWalletBalanceByUserID\<close>. The result is the value the
  Go function returns and the connection afterwards.
\<close>

definition WithdrawWalletBalanceByUserID ::
  "golib \<Rightarrow> pg_env \<Rightarrow> conn \<Rightarrow> string \<Rightarrow> int \<Rightarrow> string
     \<Rightarrow> (repo_error + WalletBalance) \<times> conn" where
  "WithdrawWalletBalanceByUserID L env c userID amountMinor chainID =
     (case uuid_Parse L userID of
        None \<Rightarrow> (Inl ErrInvalidUserID, c)
      | Some parsedUserID \<Rightarrow>
          if amountMinor \<le> 0 then (Inl ErrInvalidAmount, c)
          else if begin_err env then (Inl ErrStartTransaction, issue BEGIN c)
          else
            (let c1 = issue UPDATE_wallets (issue BEGIN c)
             in case q_WithdrawWalletBalanceByUserID env (stored c) amountMinor parsedUserID of
               (SqlErr, tx1) \<Rightarrow> (Inl ErrWithdrawQuery, issue ROLLBACK c1)
             | (NoRows, tx1) \<Rightarrow>
                 (let c2 = issue SELECT_EXISTS_wallets c1
                  in case q_HasWalletByUserID env tx1 parsedUserID of
                    SqlErr \<Rightarrow> (Inl ErrCheckExistence, issue ROLLBACK c2)
                  | NoRows \<Rightarrow> (Inl ErrCheckExistence, issue ROLLBACK c2)
                  | Row exists \<Rightarrow>
                      if \<not> exists then (Inl ErrWalletNotFound, issue ROLLBACK c2)
                      else (Inl ErrInsufficientBalance, issue ROLLBACK c2))
             | (Row withdrawnWallet, tx1) \<Rightarrow>
                 (let ledgerParams =
                        \<lparr>p_WalletID = wr_WalletID withdrawnWallet,
                         p_EntryType = ''withdrawal'',
                         p_AmountMinor = neg64 amountMinor,
                         p_BalanceAfterMinor = wr_BalanceMinor withdrawnWallet,
                         p_ReferenceID = None,
                         p_ChainID = (if chainID \<noteq> [] then Some chainID else None)\<rparr>;
                      c2 = issue INSERT_wallet_ledger c1
                  in case q_InsertWalletLedger env tx1 ledgerParams of
                    None \<Rightarrow> (Inl ErrInsertLedger, issue ROLLBACK c2)
                  | Some tx2 \<Rightarrow>
                      if commit_err env then (Inl ErrCommitTransaction, issue COMMIT c2)
                      else (Inr \<lparr>wb_UserID = wr_UserID withdrawnWallet,
                                 wb_BalanceMinor = wr_BalanceMinor withdrawnWallet,
                                 wb_Currency = wr_Currency withdrawnWallet,
                                 wb_UpdatedAt = wr_UpdatedAt withdrawnWallet\<rparr>,
                            (issue COMMIT c2)\<lparr>stored := tx2\<rparr>))))"

text \<open>
  \<open>InquiryWithdrawBalanceService.WithdrawBalance\<close>: the errors are the values of package
  \<open>vo\<close> and the repository's wrapped errors, passed through.
\<close>

record WalletWithdrawal =
  ww_UserID :: string
  ww_AmountMinor :: int
  ww_BalanceMinor :: int
  ww_Currency :: string
  ww_ChainID :: string
  ww_UpdatedAt :: time

definition WithdrawBalance ::
  "golib \<Rightarrow> pg_env \<Rightarrow> conn \<Rightarrow> string \<Rightarrow> int \<Rightarrow> string
     \<Rightarrow> (repo_error + WalletWithdrawal) \<times> conn" where
  "WithdrawBalance L env c userID amountMinor chainID =
     (if TrimSpace L userID = [] then (Inl ErrWalletNotFound, c)
      else if amountMinor \<le> 0 then (Inl ErrInvalidAmount, c)
      else case WithdrawWalletBalanceByUserID L env c userID amountMinor chainID of
        (Inl err, c') \<Rightarrow> (Inl err, c')
      | (Inr balance, c') \<Rightarrow>
          (Inr \<lparr>ww_UserID = wb_UserID balance, ww_AmountMinor = amountMinor,
                 ww_BalanceMinor = wb_BalanceMinor balance, ww_Currency = wb_Currency balance,
                 ww_ChainID = chainID, ww_UpdatedAt = wb_UpdatedAt balance\<rparr>, c'))"

section \<open>HTTP requests and responses\<close>

text \<open>
  What the handlers read of a request, and the response under construction in the Fiber
  context. \<open>rq_user_id\<close> is \<open>c.Locals("user_id")\<close> when it holds a string;
  \<open>rq_idempotency_key\<close> is \<open>c.Get("X-Idempotency-Key")\<close>, empty when the header is
  absent; \<open>rq_request_id\<close> is what \<open>ChainIDFromContext\<close> returns. A response starts
  with status 200, no header and an empty body. A \<open>fiber.Map\<close> is the list of its
  entries in key order, as the JSON encoder writes them.
\<close>

record http_request =
  rq_method :: string
  rq_path :: string
  rq_user_id :: "string option"
  rq_idempotency_key :: string
  rq_request_id :: string
  rq_ip :: string
  rq_body :: bytes

record http_response =
  rs_status :: int
  rs_headers :: "string \<rightharpoonup> string"
  rs_body :: bytes

type_synonym handler_result = "http_response \<times> string option"

definition Status :: "int \<Rightarrow> http_response \<Rightarrow> http_response" where
  "Status code r = r\<lparr>rs_status := code\<rparr>"

definition Set_header :: "string \<Rightarrow> string \<Rightarrow> http_response \<Rightarrow> http_response" where
  "Set_header k v r = r\<lparr>rs_headers := (rs_headers r)(k \<mapsto> v)\<rparr>"

definition Send :: "bytes \<Rightarrow> http_response \<Rightarrow> http_response" where
  "Send b r = r\<lparr>rs_body := b\<rparr>"

definition JSON :: "golib \<Rightarrow> (string \<times> jv) list \<Rightarrow> http_response \<Rightarrow> http_response" where
  "JSON L m r = Set_header ''Content-Type'' (json_ctype L) (Send (json_Marshal L m) r)"

definition ContentType :: "golib \<Rightarrow> http_response \<Rightarrow> string" where
  "ContentType L r =
     (case rs_headers r ''Content-Type'' of None \<Rightarrow> default_ctype L | Some v \<Rightarrow> v)"

definition error_body :: "string \<Rightarrow> (string \<times> jv) list" where
  "error_body msg = [(''error'', JStr msg)]"

section \<open>The withdraw handler\<close>

definition Handle ::
  "golib \<Rightarrow> pg_env \<Rightarrow> http_request \<Rightarrow> conn \<Rightarrow> http_response \<Rightarrow> handler_result \<times> conn" where
  "Handle L env req c resp =
     (case rq_user_id req of
        None \<Rightarrow> ((JSON L (error_body ''missing authenticated user'') (Status 401 resp), None), c)
      | Some userID \<Rightarrow>
          if userID = [] then
            ((JSON L (error_body ''missing authenticated user'') (Status 401 resp), None), c)
          else case Bind_JSON L (rq_body req) of
            None \<Rightarrow> ((JSON L (error_body ''invalid request body'') (Status 400 resp), None), c)
          | Some amount \<Rightarrow>
              (let chainID = rq_request_id req
               in case WithdrawBalance L env c userID amount chainID of
                 (Inl err, c') \<Rightarrow>
                   (if err = ErrInvalidAmount then
                      ((JSON L (error_body ''amount_minor must be greater than 0'')
                          (Status 400 resp), None), c')
                    else if err = ErrWalletNotFound then
                      ((JSON L (error_body ''wallet not found'') (Status 404 resp), None), c')
                    else if err = ErrInsufficientBalance then
                      ((JSON L (error_body ''insufficient balance'') (Status 409 resp), None), c')
                    else
                      ((JSON L (error_body ''internal server error'') (Status 500 resp), None), c'))
               | (Inr result, c') \<Rightarrow>
                   ((JSON L [(''user_id'', JStr (ww_UserID result)),
                             (''amount_minor'', JInt (ww_AmountMinor result)),
                             (''balance_minor'', JInt (ww_BalanceMinor result)),
                             (''currency'', JStr (ww_Currency result)),
                             (''chain_id'', JStr (ww_ChainID result)),
                             (''updated_at'', JTime (ww_UpdatedAt result))]
                       (Status 200 resp), None), c')))"

section \<open>The idempotency store\<close>

abbreviation DecisionAcquired :: string where "DecisionAcquired \<equiv> ''acquired''"
abbreviation DecisionReplay :: string where "DecisionReplay \<equiv> ''replay''"
abbreviation DecisionInProgress :: string where "DecisionInProgress \<equiv> ''in_progress''"
abbreviation DecisionConflict :: string where "DecisionConflict \<equiv> ''conflict''"

record Request =
  rq_Scope :: string
  rq_Key :: string
  rq_RequestHash :: string
  rq_LockTTL :: int

record Decision =
  d_Type :: string
  d_StatusCode :: int
  d_Body :: bytes
  d_ContentType :: string

record StoredResponse =
  sr_StatusCode :: int
  sr_Body :: bytes
  sr_ContentType :: string

text \<open>
  \<open>SQLXStore\<close> holds the handle \<open>db\<close>; the state behind the handle is the connection. A
  nil store and a store with a nil handle are both "not initialized".
\<close>

datatype sqlx_DB = DB

record SQLXStore =
  store_db :: "sqlx_DB option"

text \<open>
  What the environment decides for one call of the store: the application clock
  (\<open>time.Now().UTC()\<close>), which statement fails, the database clock and generated id.
\<close>

record idem_env =
  ie_now :: time
  ie_begin_err :: bool
  ie_select_err :: bool
  ie_insert_err :: bool
  ie_reacquire_err :: bool
  ie_commit_err :: bool
  ie_complete_err :: bool
  ie_rows_affected_err :: bool
  ie_pg_now :: time
  ie_pg_uuid :: uuid

datatype idem_error =
    ErrStoreNotInitialized | ErrScopeRequired | ErrKeyRequired | ErrHashRequired
  | ErrStartTx | ErrQueryKey | ErrInsertKey | ErrCommitAcquireInsert
  | ErrCommitConflictRead | ErrCommitReplayRead | ErrCommitInProgressRead
  | ErrReacquireKey | ErrCommitReacquire
  | ErrPersistResponse | ErrReadAffectedRows | ErrKeyNotFoundForCompletion

definition defaultLockTTL :: int where
  "defaultLockTTL = 30 * 1000000000"

definition not_initialized :: "SQLXStore option \<Rightarrow> bool" where
  "not_initialized s = (case s of None \<Rightarrow> True | Some st \<Rightarrow> store_db st = None)"

definition empty_Decision :: Decision where
  "empty_Decision = \<lparr>d_Type = [], d_StatusCode = 0, d_Body = [], d_ContentType = []\<rparr>"

text \<open>
  \<open>SQLXStore.Acquire\<close>. The column \<open>request_hash\<close> holds the hash as it was written (the
  middleware's hashes fill the \<open>char(64)\<close> column exactly).
\<close>

definition Acquire ::
  "golib \<Rightarrow> idem_env \<Rightarrow> SQLXStore option \<Rightarrow> conn \<Rightarrow> Request
     \<Rightarrow> (idem_error + Decision) \<times> conn" where
  "Acquire L env s c request =
     (if not_initialized s then (Inl ErrStoreNotInitialized, c)
      else
        (let lockTTL = (if rq_LockTTL request \<le> 0 then defaultLockTTL else rq_LockTTL request);
             scope = TrimSpace L (rq_Scope request);
             key = TrimSpace L (rq_Key request);
             hash = TrimSpace L (rq_RequestHash request);
             now = ie_now env;
             lockUntil = now + lockTTL
         in if scope = [] then (Inl ErrScopeRequired, c)
            else if key = [] then (Inl ErrKeyRequired, c)
            else if hash = [] then (Inl ErrHashRequired, c)
            else if ie_begin_err env then (Inl ErrStartTx, issue BEGIN c)
            else
              (let c1 = issue SELECT_idempotency_FOR_UPDATE (issue BEGIN c);
                   tx = stored c
               in if ie_select_err env then (Inl ErrQueryKey, issue ROLLBACK c1)
                  else case withdraw_idempotency tx (scope, key) of
                    None \<Rightarrow>
                      (let c2 = issue INSERT_idempotency c1;
                           tx1 = tx\<lparr>withdraw_idempotency := (withdraw_idempotency tx)
                                   ((scope, key) \<mapsto>
                                      \<lparr>i_id = ie_pg_uuid env, i_request_hash = hash,
                                       i_status = ''in_progress'', i_response_status = None,
                                       i_response_body = None, i_response_content_type = None,
                                       i_locked_until = lockUntil,
                                       i_created_at = ie_pg_now env,
                                       i_updated_at = ie_pg_now env,
                                       i_completed_at = None\<rparr>)\<rparr>
                       in if ie_insert_err env then (Inl ErrInsertKey, issue ROLLBACK c2)
                          else if ie_commit_err env then
                            (Inl ErrCommitAcquireInsert, issue COMMIT c2)
                          else (Inr (empty_Decision\<lparr>d_Type := DecisionAcquired\<rparr>),
                                (issue COMMIT c2)\<lparr>stored := tx1\<rparr>))
                  | Some existing \<Rightarrow>
                      if i_request_hash existing \<noteq> hash then
                        (if ie_commit_err env then (Inl ErrCommitConflictRead, issue COMMIT c1)
                         else (Inr (empty_Decision\<lparr>d_Type := DecisionConflict\<rparr>),
                               issue COMMIT c1))
                      else if i_status existing = ''completed'' then
                        (if ie_commit_err env then (Inl ErrCommitReplayRead, issue COMMIT c1)
                         else
                           (Inr \<lparr>d_Type = DecisionReplay,
                                  d_StatusCode =
                                    (case i_response_status existing of
                                       Some v \<Rightarrow> v | None \<Rightarrow> 0),
                                  d_Body =
                                    (case i_response_body existing of
                                       Some b \<Rightarrow> b | None \<Rightarrow> []),
                                  d_ContentType =
                                    (case i_response_content_type existing of
                                       Some t \<Rightarrow> t | None \<Rightarrow> [])\<rparr>,
                            issue COMMIT c1))
                      else if i_status existing = ''in_progress''
                              \<and> i_locked_until existing > now then
                        (if ie_commit_err env then (Inl ErrCommitInProgressRead, issue COMMIT c1)
                         else (Inr (empty_Decision\<lparr>d_Type := DecisionInProgress\<rparr>),
                               issue COMMIT c1))
                      else
                        (let c2 = issue UPDATE_idempotency_reacquire c1;
                             tx1 = tx\<lparr>withdraw_idempotency := (withdraw_idempotency tx)
                                     ((scope, key) \<mapsto>
                                        existing\<lparr>i_status := ''in_progress'',
                                                  i_locked_until := lockUntil,
                                                  i_updated_at := ie_pg_now env\<rparr>)\<rparr>
                         in if ie_reacquire_err env then (Inl ErrReacquireKey, issue ROLLBACK c2)
                            else if ie_commit_err env then
                              (Inl ErrCommitReacquire, issue COMMIT c2)
                            else (Inr (empty_Decision\<lparr>d_Type := DecisionAcquired\<rparr>),
                                  (issue COMMIT c2)\<lparr>stored := tx1\<rparr>)))))"

text \<open>
  \<open>SQLXStore.Complete\<close>: one \<open>UPDATE\<close> outside a transaction, on the row with this scope,
  key and request hash.
\<close>

definition Complete ::
  "golib \<Rightarrow> idem_env \<Rightarrow> SQLXStore option \<Rightarrow> conn \<Rightarrow> Request \<Rightarrow> StoredResponse
     \<Rightarrow> idem_error option \<times> conn" where
  "Complete L env s c request response =
     (if not_initialized s then (Some ErrStoreNotInitialized, c)
      else
        (let scope = TrimSpace L (rq_Scope request);
             key = TrimSpace L (rq_Key request);
             hash = TrimSpace L (rq_RequestHash request);
             contentType = TrimSpace L (sr_ContentType response)
         in if scope = [] then (Some ErrScopeRequired, c)
            else if key = [] then (Some ErrKeyRequired, c)
            else if hash = [] then (Some ErrHashRequired, c)
            else if ie_complete_err env then
              (Some ErrPersistResponse, issue UPDATE_idempotency_complete c)
            else
              (let c1 = issue UPDATE_idempotency_complete c;
                   d = stored c;
                   matching = (case withdraw_idempotency d (scope, key) of
                                 None \<Rightarrow> None
                               | Some r \<Rightarrow> if i_request_hash r = hash then Some r else None)
               in case matching of
                 None \<Rightarrow>
                   (if ie_rows_affected_err env then (Some ErrReadAffectedRows, c1)
                    else (Some ErrKeyNotFoundForCompletion, c1))
               | Some r \<Rightarrow>
                   (let c2 = c1\<lparr>stored := d\<lparr>withdraw_idempotency := (withdraw_idempotency d)
                                  ((scope, key) \<mapsto>
                                     r\<lparr>i_status := ''completed'',
                                       i_response_status := Some (sr_StatusCode response),
                                       i_response_body := Some (sr_Body response),
                                       i_response_content_type := Some contentType,
                                       i_locked_until := ie_pg_now env,
                                       i_completed_at := Some (ie_pg_now env),
                                       i_updated_at := ie_pg_now env\<rparr>)\<rparr>\<rparr>
                    in if ie_rows_affected_err env then (Some ErrReadAffectedRows, c2)
                       else (None, c2)))))"

section \<open>The withdraw idempotency middleware\<close>

definition withdrawRequestHash :: "golib \<Rightarrow> string \<Rightarrow> string \<Rightarrow> string \<Rightarrow> bytes \<Rightarrow> string" where
  "withdrawRequestHash L method path userID body =
     sha256_hex L (ToUpper L (TrimSpace L method) @ [CHR 0x0A] @ TrimSpace L path @ [CHR 0x0A]
                   @ TrimSpace L userID @ [CHR 0x0A] @ body)"

text \<open>
  \<open>NewHTTPWithdrawIdempotencyMiddleware\<close>. \<open>next\<close> is the rest of the handler chain
  (\<open>c.Next()\<close>): it runs on the connection and the response, and returns the response, the
  error it returns and the connection. \<open>envA\<close> and \<open>envC\<close> are the environments of the
  calls of \<open>Acquire\<close> and \<open>Complete\<close>.
\<close>

definition NewHTTPWithdrawIdempotencyMiddleware ::
  "golib \<Rightarrow> SQLXStore option \<Rightarrow> idem_env \<Rightarrow> idem_env
     \<Rightarrow> (conn \<Rightarrow> http_response \<Rightarrow> handler_result \<times> conn)
     \<Rightarrow> http_request \<Rightarrow> conn \<Rightarrow> http_response \<Rightarrow> handler_result \<times> conn" where
  "NewHTTPWithdrawIdempotencyMiddleware L store envA envC next req c resp =
     (if store = None then
        ((JSON L (error_body ''idempotency store is not available'') (Status 500 resp), None), c)
      else case rq_user_id req of
        None \<Rightarrow> ((JSON L (error_body ''missing authenticated user'') (Status 401 resp), None), c)
      | Some userID \<Rightarrow>
          if TrimSpace L userID = [] then
            ((JSON L (error_body ''missing authenticated user'') (Status 401 resp), None), c)
          else
            (let idempotencyKey = TrimSpace L (rq_idempotency_key req)
             in if idempotencyKey = [] then
                  ((JSON L (error_body ''missing idempotency key'') (Status 400 resp), None), c)
                else
                  (let hash = withdrawRequestHash L (rq_method req) (rq_path req) userID
                                (rq_body req);
                       request = \<lparr>rq_Scope = ''withdraw:'' @ userID, rq_Key = idempotencyKey,
                                  rq_RequestHash = hash, rq_LockTTL = 0\<rparr>
                   in case Acquire L envA store c request of
                     (Inl err, c1) \<Rightarrow>
                       ((JSON L (error_body ''failed to acquire idempotency key'')
                           (Status 500 resp), None), c1)
                   | (Inr decision, c1) \<Rightarrow>
                       if d_Type decision = DecisionReplay then
                         (let r1 = (if d_ContentType decision \<noteq> []
                                    then Set_header ''Content-Type'' (d_ContentType decision) resp
                                    else resp);
                              code = (if d_StatusCode decision \<le> 0 then 200
                                      else d_StatusCode decision)
                          in ((Send (d_Body decision) (Status code r1), None), c1))
                       else if d_Type decision = DecisionInProgress then
                         ((JSON L (error_body ''request is already in progress'')
                             (Status 409 resp), None), c1)
                       else if d_Type decision = DecisionConflict then
                         ((JSON L (error_body ''idempotency key reused with different payload'')
                             (Status 409 resp), None), c1)
                       else if d_Type decision = DecisionAcquired then
                         (case next c1 resp of
                            ((r, handlerErr), c2) \<Rightarrow>
                              (let response = \<lparr>sr_StatusCode = rs_status r,
                                               sr_Body = rs_body r,
                                               sr_ContentType = ContentType L r\<rparr>
                               in case Complete L envC store c2 request response of
                                 (Some err, c3) \<Rightarrow>
                                   (if handlerErr \<noteq> None then ((r, handlerErr), c3)
                                    else
                                      ((JSON L (error_body
                                                  ''failed to persist idempotency response'')
                                          (Status 500 r), None), c3))
                               | (None, c3) \<Rightarrow> ((r, handlerErr), c3)))
                       else
                         ((JSON L (error_body ''invalid idempotency state'')
                             (Status 500 resp), None), c1))))"

section \<open>The rate limiter\<close>

abbreviation AlgorithmTokenBucket :: string where "AlgorithmTokenBucket \<equiv> ''token_bucket''"
abbreviation AlgorithmSlidingWindow :: string where "AlgorithmSlidingWindow \<equiv> ''sliding_window''"
abbreviation AlgorithmFixedWindow :: string where "AlgorithmFixedWindow \<equiv> ''fixed_window''"

record Config =
  cfg_Algorithm :: string
  cfg_Limit :: int
  cfg_Window :: int
  cfg_Burst :: int

record Result =
  res_Allowed :: bool
  res_Limit :: int
  res_Remaining :: int
  res_ResetAt :: time
  res_RetryAfter :: int

text \<open>
  The shared store: a Redis key holds a value and, when set, the instant (in milliseconds
  of the Redis clock) it expires at. The value is an integer string (the counter of the
  fixed window) or a hash with the fields \<open>tokens\<close> and \<open>last_refill\<close> (the token bucket).
  A key is gone once the clock is past its instant. \<open>INCR\<close> creates a missing key as 1
  without expiry and fails past the 64-bit range and on a hash; \<open>HMGET\<close> finds no field
  under a missing key and fails on a string; \<open>HMSET\<close> creates a missing key without expiry,
  keeps the expiry of a hash and fails on a string; \<open>PEXPIRE\<close> with a non-positive time
  deletes the key; \<open>PTTL\<close> is -2 for a missing key and -1 for a key without expiry.
\<close>

datatype redis_val = Counter int | Bucket rat rat

record redis_entry =
  re_value :: redis_val
  re_expire_at :: "int option"

type_synonym redis = "string \<rightharpoonup> redis_entry"

definition redis_live :: "int \<Rightarrow> redis \<Rightarrow> string \<Rightarrow> redis_entry option" where
  "redis_live now db key =
     (case db key of
        None \<Rightarrow> None
      | Some e \<Rightarrow>
          (case re_expire_at e of
             None \<Rightarrow> Some e
           | Some t \<Rightarrow> if now > t then None else Some e))"

definition redis_INCR :: "int \<Rightarrow> redis \<Rightarrow> string \<Rightarrow> (int \<times> redis) option" where
  "redis_INCR now db key =
     (case redis_live now db key of
        None \<Rightarrow> Some (1, db(key \<mapsto> \<lparr>re_value = Counter 1, re_expire_at = None\<rparr>))
      | Some e \<Rightarrow>
          (case re_value e of
             Counter n \<Rightarrow>
               if n + 1 \<ge> 2 ^ 63 then None
               else Some (n + 1, db(key \<mapsto> e\<lparr>re_value := Counter (n + 1)\<rparr>))
           | Bucket t r \<Rightarrow> None))"

definition redis_HMGET :: "int \<Rightarrow> redis \<Rightarrow> string \<Rightarrow> (rat option \<times> rat option) option" where
  "redis_HMGET now db key =
     (case redis_live now db key of
        None \<Rightarrow> Some (None, None)
      | Some e \<Rightarrow>
          (case re_value e of
             Bucket t r \<Rightarrow> Some (Some t, Some r)
           | Counter n \<Rightarrow> None))"

definition redis_HMSET :: "int \<Rightarrow> redis \<Rightarrow> string \<Rightarrow> rat \<Rightarrow> rat \<Rightarrow> redis option" where
  "redis_HMSET now db key t r =
     (case redis_live now db key of
        None \<Rightarrow> Some (db(key \<mapsto> \<lparr>re_value = Bucket t r, re_expire_at = None\<rparr>))
      | Some e \<Rightarrow>
          (case re_value e of
             Bucket t0 r0 \<Rightarrow> Some (db(key \<mapsto> e\<lparr>re_value := Bucket t r\<rparr>))
           | Counter n \<Rightarrow> None))"

definition redis_PEXPIRE :: "int \<Rightarrow> redis \<Rightarrow> string \<Rightarrow> int \<Rightarrow> redis" where
  "redis_PEXPIRE now db key ms =
     (case redis_live now db key of
        None \<Rightarrow> db
      | Some e \<Rightarrow>
          if ms \<le> 0 then db(key := None)
          else db(key \<mapsto> e\<lparr>re_expire_at := Some (now + ms)\<rparr>))"

definition redis_PTTL :: "int \<Rightarrow> redis \<Rightarrow> string \<Rightarrow> int" where
  "redis_PTTL now db key =
     (case redis_live now db key of
        None \<Rightarrow> - 2
      | Some e \<Rightarrow>
          (case re_expire_at e of
             None \<Rightarrow> - 1
           | Some t \<Rightarrow> max 0 (t - now)))"

text \<open>
  The numbers of a Lua script are IEEE doubles. \<open>lua_number x\<close> is the double an integer
  \<open>x\<close> becomes (\<open>tonumber\<close> of its decimal string, or the conversion of an integer reply):
  \<open>x\<close> itself up to \<open>2^53\<close> in absolute value, and beyond that the nearest multiple of the
  spacing of doubles at \<open>x\<close>, a tie going to the even significand. The difference of two
  integral doubles is the double of their exact difference.
\<close>

fun bit_length :: "nat \<Rightarrow> nat" where
  "bit_length n = (if n = 0 then 0 else Suc (bit_length (n div 2)))"

declare bit_length.simps [simp del]

definition lua_number :: "int \<Rightarrow> int" where
  "lua_number x =
     (let a = nat \<bar>x\<bar>
      in if a \<le> 2 ^ 53 then x
         else
           (let k = bit_length a - 53;
                q = a div 2 ^ k;
                r = a mod 2 ^ k;
                h = 2 ^ (k - 1);
                m = (if r > h \<or> (r = h \<and> odd q) then q + 1 else q)
            in sgn x * int (m * 2 ^ k)))"

text \<open>
  The Lua script of \<open>fixedWindow\<close>, run atomically at the Redis instant \<open>now\<close>. It returns
  \<open>{allowed, remaining, ttl}\<close>, or nothing when a command fails. The window it is called
  with is a \<open>time.Duration\<close> in milliseconds, below \<open>2^53\<close>.
\<close>

definition fixedWindow_script ::
  "int \<Rightarrow> redis \<Rightarrow> string \<Rightarrow> int \<Rightarrow> int \<Rightarrow> (int \<times> int \<times> int) option \<times> redis" where
  "fixedWindow_script now db key argv1 argv2 =
     (let limit = lua_number argv1;
          window = lua_number argv2
      in case redis_INCR now db key of
        None \<Rightarrow> (None, db)
      | Some (n, db1) \<Rightarrow>
          (let current = lua_number n;
               db2 = (if current = 1 then redis_PEXPIRE now db1 key window else db1);
               ttl = lua_number (redis_PTTL now db2 key)
           in if current \<le> limit then (Some (1, lua_number (limit - current), ttl), db2)
              else (Some (0, 0, ttl), db2)))"

text \<open>
  The Lua script of \<open>tokenBucket\<close>, run atomically at the Redis instant \<open>rnow\<close>; \<open>now\<close> is
  the argument the application passes. It returns \<open>{allowed, floor(remaining),
  floor(retryAfter)}\<close>, or nothing when a command fails. The script divides by \<open>window\<close>
  and by \<open>limit / window\<close>; it is modelled for a limit and a window other than 0. Its
  doubles are computed exactly here, as rationals.
\<close>

definition tokenBucket_script ::
  "int \<Rightarrow> redis \<Rightarrow> string \<Rightarrow> int \<Rightarrow> int \<Rightarrow> int \<Rightarrow> int \<Rightarrow> int
     \<Rightarrow> (int \<times> int \<times> int) option \<times> redis" where
  "tokenBucket_script rnow db key argv1 argv2 argv3 argv4 argv5 =
     (let limit = (of_int argv1 :: rat);
          burst = (of_int argv2 :: rat);
          window = (of_int argv3 :: rat);
          now = (of_int argv4 :: rat);
          requested = (of_int argv5 :: rat)
      in case redis_HMGET rnow db key of
        None \<Rightarrow> (None, db)
      | Some (data1, data2) \<Rightarrow>
          (let tokens0 = (case data1 of Some t \<Rightarrow> t | None \<Rightarrow> burst);
               lastRefill = (case data2 of Some r \<Rightarrow> r | None \<Rightarrow> now);
               elapsed = now - lastRefill;
               refillRate = limit / window;
               tokens1 = min burst (tokens0 + elapsed * refillRate);
               allowed = (if tokens1 \<ge> requested then 1 else 0);
               tokens2 = (if tokens1 \<ge> requested then tokens1 - requested else tokens1);
               remaining = (if tokens1 \<ge> requested then tokens2 else 0);
               retryAfter = (if tokens1 \<ge> requested then 0
                             else (requested - tokens1) / refillRate)
           in case redis_HMSET rnow db key tokens2 now of
             None \<Rightarrow> (None, db)
           | Some db1 \<Rightarrow>
               (let db2 = redis_PEXPIRE rnow db1 key (argv3 * 2)
                in (Some (allowed, \<lfloor>remaining\<rfloor>, \<lfloor>retryAfter\<rfloor>), db2))))"

text \<open>Go's integer division truncates toward zero.\<close>

definition quot :: "int \<Rightarrow> int \<Rightarrow> int" where
  "quot a b = (if a \<ge> 0 then a div b else - ((- a) div b))"

definition Milliseconds :: "int \<Rightarrow> int" where
  "Milliseconds d = quot d 1000000"

definition Millisecond :: int where
  "Millisecond = 1000000"

definition UnixMilli :: "time \<Rightarrow> int" where
  "UnixMilli t = t div 1000000"

text \<open>
  What the environment decides for one call of the store: the Redis clock in
  milliseconds, whether the \<open>EVAL\<close> round trip fails, and the application clock.
\<close>

record redis_env =
  rd_now :: int
  rd_eval_err :: bool
  rd_app_now :: time

datatype rl_error =
    ErrRedisNotInitialized | ErrRedisEval | ErrStoreRequired | ErrLimitNotPositive
  | ErrWindowNotPositive | ErrStoreError rl_error

type_synonym algorithm_impl =
  "redis_env \<Rightarrow> redis \<Rightarrow> string \<Rightarrow> Config \<Rightarrow> (rl_error + Result) \<times> redis"

definition fixedWindow :: algorithm_impl where
  "fixedWindow env db key config =
     (let windowMs = Milliseconds (cfg_Window config)
      in if rd_eval_err env then (Inl ErrRedisEval, db)
         else case fixedWindow_script (rd_now env) db key (cfg_Limit config) windowMs of
           (None, db') \<Rightarrow> (Inl ErrRedisEval, db')
         | (Some (a, remaining, ttlMs), db') \<Rightarrow>
             (let allowed = (a = 1);
                  retryAfter = (if \<not> allowed then ttlMs * Millisecond else 0)
              in (Inr \<lparr>res_Allowed = allowed, res_Limit = cfg_Limit config,
                        res_Remaining = remaining,
                        res_ResetAt = rd_app_now env + ttlMs * Millisecond,
                        res_RetryAfter = retryAfter\<rparr>, db')))"

text \<open>
  \<open>tokenBucket\<close>. What the script answers for a limit or a window of 0 milliseconds, where
  it divides by zero, is the parameter \<open>beyond\<close>.
\<close>

definition tokenBucket :: "algorithm_impl \<Rightarrow> algorithm_impl" where
  "tokenBucket beyond env db key config =
     (let now = UnixMilli (rd_app_now env);
          windowMs = Milliseconds (cfg_Window config)
      in if rd_eval_err env then (Inl ErrRedisEval, db)
         else if cfg_Limit config = 0 \<or> windowMs = 0 then beyond env db key config
         else case tokenBucket_script (rd_now env) db key (cfg_Limit config) (cfg_Burst config)
                     windowMs now 1 of
           (None, db') \<Rightarrow> (Inl ErrRedisEval, db')
         | (Some (a, remaining, retryAfterMs), db') \<Rightarrow>
             (let allowed = (a = 1)
              in (Inr \<lparr>res_Allowed = allowed, res_Limit = cfg_Limit config,
                        res_Remaining = remaining,
                        res_ResetAt = rd_app_now env + cfg_Window config,
                        res_RetryAfter = retryAfterMs * Millisecond\<rparr>, db')))"

text \<open>
  \<open>RedisStore.Allow\<close>. The dispatch takes the token-bucket and the sliding-window
  implementation as the parameters \<open>tb\<close> and \<open>sw\<close>: what is proved of it holds for every
  implementation of the two scripts, which compute in floating point and with random
  members.
\<close>

datatype redis_Client = Client

record RedisStore =
  rs_client :: "redis_Client option"
  rs_prefix :: string

definition RedisStore_Allow ::
  "algorithm_impl \<Rightarrow> algorithm_impl \<Rightarrow> redis_env \<Rightarrow> RedisStore option \<Rightarrow> redis \<Rightarrow> string
     \<Rightarrow> Config \<Rightarrow> (rl_error + Result) \<times> redis" where
  "RedisStore_Allow tb sw env s db key config =
     (case s of
        None \<Rightarrow> (Inl ErrRedisNotInitialized, db)
      | Some st \<Rightarrow>
          if rs_client st = None then (Inl ErrRedisNotInitialized, db)
          else
            (let fullKey = rs_prefix st @ '':'' @ key
             in if cfg_Algorithm config = AlgorithmTokenBucket then
                  tb env db fullKey config
                else if cfg_Algorithm config = AlgorithmSlidingWindow then
                  sw env db fullKey config
                else if cfg_Algorithm config = AlgorithmFixedWindow then
                  fixedWindow env db fullKey config
                else tb env db fullKey config))"

text \<open>
  \<open>ratelimit.New\<close> and \<open>limiter.AllowKey\<close>. The key extractor and the \<open>OnLimited\<close> callback
  of the configuration (a log line) do not touch the store and are left out.
\<close>

record limiter =
  lm_store :: "RedisStore option"
  lm_config :: Config

definition ratelimit_New :: "RedisStore option \<Rightarrow> Config \<Rightarrow> rl_error + limiter" where
  "ratelimit_New store config =
     (if store = None then Inl ErrStoreRequired
      else if cfg_Limit config \<le> 0 then Inl ErrLimitNotPositive
      else if cfg_Window config \<le> 0 then Inl ErrWindowNotPositive
      else
        (let config1 = (if cfg_Algorithm config = [] then
                          config\<lparr>cfg_Algorithm := AlgorithmTokenBucket\<rparr> else config);
             config2 = (if cfg_Burst config1 \<le> 0 then
                          config1\<lparr>cfg_Burst := cfg_Limit config1\<rparr> else config1)
         in Inr \<lparr>lm_store = store, lm_config = config2\<rparr>))"

definition AllowKey ::
  "algorithm_impl \<Rightarrow> algorithm_impl \<Rightarrow> redis_env \<Rightarrow> limiter \<Rightarrow> redis \<Rightarrow> string
     \<Rightarrow> (rl_error + Result) \<times> redis" where
  "AllowKey tb sw env l db key =
     (case RedisStore_Allow tb sw env (lm_store l) db key (lm_config l) of
        (Inl err, db') \<Rightarrow> (Inl (ErrStoreError err), db')
      | (Inr result, db') \<Rightarrow> (Inr result, db'))"

section \<open>The rate-limit middleware\<close>

record RateLimitConfig =
  rc_Limiter :: "limiter option"
  rc_Skipper :: "(http_request \<Rightarrow> bool) option"
  rc_KeyExtractor :: "(http_request \<Rightarrow> string) option"

definition defaultKeyExtractor :: "http_request \<Rightarrow> string" where
  "defaultKeyExtractor req =
     (case rq_user_id req of
        Some uid \<Rightarrow> if uid \<noteq> [] then ''user:'' @ uid else ''ip:'' @ rq_ip req
      | None \<Rightarrow> ''ip:'' @ rq_ip req)"

definition PerUserKeyExtractor :: "string \<Rightarrow> http_request \<Rightarrow> string" where
  "PerUserKeyExtractor prefix req =
     (case rq_user_id req of
        Some uid \<Rightarrow> if uid \<noteq> [] then prefix @ '':user:'' @ uid else prefix @ '':ip:'' @ rq_ip req
      | None \<Rightarrow> prefix @ '':ip:'' @ rq_ip req)"

text \<open>\<open>t.Unix()\<close>, on integer nanoseconds.\<close>

definition Unix :: "time \<Rightarrow> int" where
  "Unix t = t div 1000000000"

text \<open>
  \<open>NewHTTPRateLimitMiddleware\<close>. Where the Go code ends with \<open>return c.Next()\<close> the
  middleware hands the response on to the next handler; otherwise it answers itself.
\<close>

datatype mw_result = CallNext http_response | Respond http_response

definition NewHTTPRateLimitMiddleware ::
  "golib \<Rightarrow> algorithm_impl \<Rightarrow> algorithm_impl \<Rightarrow> RateLimitConfig \<Rightarrow> redis_env
     \<Rightarrow> http_request \<Rightarrow> redis \<Rightarrow> http_response \<Rightarrow> mw_result \<times> redis" where
  "NewHTTPRateLimitMiddleware L tb sw cfg env req db resp =
     (case rc_Limiter cfg of
        None \<Rightarrow> (CallNext resp, db)
      | Some lmt \<Rightarrow>
          (let Skipper = (case rc_Skipper cfg of None \<Rightarrow> (\<lambda>r. False) | Some f \<Rightarrow> f);
               KeyExtractor = (case rc_KeyExtractor cfg of
                                 None \<Rightarrow> defaultKeyExtractor | Some f \<Rightarrow> f)
           in if Skipper req then (CallNext resp, db)
              else
                (let key = KeyExtractor req
                 in case AllowKey tb sw env lmt db key of
                   (Inl err, db') \<Rightarrow>
                     (Respond (JSON L (error_body ''internal server error'') (Status 500 resp)),
                      db')
                 | (Inr result, db') \<Rightarrow>
                     (let r1 = Set_header ''X-RateLimit-Limit'' (Itoa L (res_Limit result)) resp;
                          r2 = Set_header ''X-RateLimit-Remaining''
                                 (Itoa L (res_Remaining result)) r1;
                          r3 = Set_header ''X-RateLimit-Reset''
                                 (Itoa L (Unix (res_ResetAt result))) r2
                      in if \<not> res_Allowed result then
                           (let retryAfter0 = Seconds_int L (res_RetryAfter result);
                                retryAfter = (if retryAfter0 < 1 then 1 else retryAfter0);
                                r4 = Set_header ''Retry-After'' (Itoa L retryAfter) r3
                            in (Respond (JSON L [(''error'', JStr ''rate limit exceeded''),
                                                 (''retry_after'', JInt retryAfter)]
                                           (Status 429 r4)), db'))
                         else (CallNext r3, db')))))"

text \<open>
  A run of requests on one key, at the given Redis instants: the results of calling
  \<open>AllowKey\<close> once per request, in order.
\<close>

fun AllowKey_run ::
  "algorithm_impl \<Rightarrow> algorithm_impl \<Rightarrow> limiter \<Rightarrow> string \<Rightarrow> redis_env list \<Rightarrow> redis
     \<Rightarrow> (rl_error + Result) list \<times> redis" where
  "AllowKey_run tb sw l key [] db = ([], db)"
| "AllowKey_run tb sw l key (env # envs) db =
     (case AllowKey tb sw env l db key of
        (r, db') \<Rightarrow>
          (case AllowKey_run tb sw l key envs db' of
             (rs, db'') \<Rightarrow> (r # rs, db'')))"

section \<open>Selection by configuration string\<close>

definition parseRateLimitAlgorithm :: "golib \<Rightarrow> string \<Rightarrow> string" where
  "parseRateLimitAlgorithm L v =
     (let s = TrimSpace L (ToLower L v)
      in if s = ''sliding_window'' then AlgorithmSlidingWindow
         else if s = ''fixed_window'' then AlgorithmFixedWindow
         else AlgorithmTokenBucket)"

abbreviation StrategyBcrypt :: string where "StrategyBcrypt \<equiv> ''bcrypt''"

record hash_Options =
  ho_Strategy :: string
  ho_Cost :: int

datatype Hasher = bcryptHasher int

datatype hash_error = ErrUnknownStrategy string | ErrBcryptCostOutOfRange int

definition NewBcrypt :: "int \<Rightarrow> hash_error + Hasher" where
  "NewBcrypt cost =
     (let cost1 = (if cost = 0 then 10 else cost)
      in if cost1 < 4 \<or> cost1 > 31 then Inl (ErrBcryptCostOutOfRange cost1)
         else Inr (bcryptHasher cost1))"

definition hash_New :: "hash_Options \<Rightarrow> hash_error + Hasher" where
  "hash_New opts =
     (if ho_Strategy opts = StrategyBcrypt then NewBcrypt (ho_Cost opts)
      else Inl (ErrUnknownStrategy (ho_Strategy opts)))"

section \<open>Predicates of the specification\<close>

text \<open>The wallet invariant: every balance is non-negative.\<close>

definition balances_nonneg :: "database \<Rightarrow> bool" where
  "balances_nonneg d =
     (\<forall>u. case wallets d u of None \<Rightarrow> True | Some w \<Rightarrow> 0 \<le> w_balance_minor w)"

text \<open>The store is initialized: neither the store nor its handle is nil.\<close>

definition initialized :: "SQLXStore option \<Rightarrow> bool" where
  "initialized s = (\<not> not_initialized s)"

text \<open>No statement of \<open>Acquire\<close>, respectively of \<open>Complete\<close>, fails.\<close>

definition acquire_ok :: "idem_env \<Rightarrow> bool" where
  "acquire_ok env = (\<not> ie_begin_err env \<and> \<not> ie_select_err env \<and> \<not> ie_insert_err env
                     \<and> \<not> ie_reacquire_err env \<and> \<not> ie_commit_err env)"

definition complete_ok :: "idem_env \<Rightarrow> bool" where
  "complete_ok env = (\<not> ie_complete_err env \<and> \<not> ie_rows_affected_err env)"

text \<open>
  A request passes the store's validation: scope, key and hash are non-empty once
  trimmed. \<open>record_of\<close> is the row the store finds for the request, if any.
\<close>

definition well_formed :: "golib \<Rightarrow> Request \<Rightarrow> bool" where
  "well_formed L request =
     (TrimSpace L (rq_Scope request) \<noteq> [] \<and> TrimSpace L (rq_Key request) \<noteq> []
      \<and> TrimSpace L (rq_RequestHash request) \<noteq> [])"

definition record_of :: "golib \<Rightarrow> conn \<Rightarrow> Request \<Rightarrow> idem_row option" where
  "record_of L c request =
     withdraw_idempotency (stored c)
       (TrimSpace L (rq_Scope request), TrimSpace L (rq_Key request))"

text \<open>The lock TTL the store uses for a request.\<close>

definition effective_ttl :: "Request \<Rightarrow> int" where
  "effective_ttl request =
     (if rq_LockTTL request \<le> 0 then defaultLockTTL else rq_LockTTL request)"

text \<open>The store request the middleware builds for the HTTP request of user \<open>userID\<close>.\<close>

definition middleware_request :: "golib \<Rightarrow> http_request \<Rightarrow> string \<Rightarrow> Request" where
  "middleware_request L req userID =
     \<lparr>rq_Scope = ''withdraw:'' @ userID, rq_Key = TrimSpace L (rq_idempotency_key req),
      rq_RequestHash = withdrawRequestHash L (rq_method req) (rq_path req) userID (rq_body req),
      rq_LockTTL = 0\<rparr>"

text \<open>
  An HTTP request passes the middleware's own checks for user \<open>userID\<close> and its store
  request passes the store's validation.
\<close>

definition admitted :: "golib \<Rightarrow> http_request \<Rightarrow> string \<Rightarrow> bool" where
  "admitted L req userID =
     (rq_user_id req = Some userID \<and> TrimSpace L userID \<noteq> []
      \<and> TrimSpace L (rq_idempotency_key req) \<noteq> []
      \<and> well_formed L (middleware_request L req userID))"

text \<open>
  The withdraw route behind the rate limiter: the idempotency middleware around the
  handler, as \<open>registerWithdrawRoutes\<close> composes them. \<open>envW\<close> is the environment of the
  ledger transaction.
\<close>

definition withdraw_route ::
  "golib \<Rightarrow> SQLXStore option \<Rightarrow> idem_env \<Rightarrow> pg_env \<Rightarrow> idem_env
     \<Rightarrow> http_request \<Rightarrow> conn \<Rightarrow> http_response \<Rightarrow> handler_result \<times> conn" where
  "withdraw_route L store envA envW envC req c resp =
     NewHTTPWithdrawIdempotencyMiddleware L store envA envC (Handle L envW req) req c resp"

text \<open>
  For the rate-limit middleware: whether the configured skipper skips the request, and
  the key the configured extractor gives it.
\<close>

definition skipped :: "RateLimitConfig \<Rightarrow> http_request \<Rightarrow> bool" where
  "skipped cfg req = (case rc_Skipper cfg of None \<Rightarrow> False | Some f \<Rightarrow> f req)"

definition limit_key :: "RateLimitConfig \<Rightarrow> http_request \<Rightarrow> string" where
  "limit_key cfg req =
     (case rc_KeyExtractor cfg of None \<Rightarrow> defaultKeyExtractor req | Some f \<Rightarrow> f req)"

text \<open>A store with a client, and the key it uses in Redis.\<close>

definition connected :: "RedisStore option \<Rightarrow> bool" where
  "connected s = (case s of None \<Rightarrow> False | Some st \<Rightarrow> rs_client st \<noteq> None)"

definition full_key :: "RedisStore option \<Rightarrow> string \<Rightarrow> string" where
  "full_key s key = (case s of None \<Rightarrow> key | Some st \<Rightarrow> rs_prefix st @ '':'' @ key)"

section \<open>Concrete instances for evaluation\<close>

text \<open>
  Stand-ins for the library functions (ASCII case mapping and trimming, a decimal printer,
  a JSON writer without escapes, a transparent digest, the whole seconds of a duration
  by truncation, which is \<open>int(d.Seconds())\<close> on the durations of whole seconds used
  below), the seeded wallet of the migrations, and environments in which no statement
  fails.
\<close>

definition ascii_lower :: "char \<Rightarrow> char" where
  "ascii_lower ch =
     (let n = (of_char ch :: nat) in if 65 \<le> n \<and> n \<le> 90 then char_of (n + 32) else ch)"

definition ascii_upper :: "char \<Rightarrow> char" where
  "ascii_upper ch =
     (let n = (of_char ch :: nat) in if 97 \<le> n \<and> n \<le> 122 then char_of (n - 32) else ch)"

definition ascii_space :: "char \<Rightarrow> bool" where
  "ascii_space ch = (ch = CHR 0x09 \<or> ch = CHR 0x0A \<or> ch = CHR 0x0B \<or> ch = CHR 0x0C
                     \<or> ch = CHR 0x0D \<or> ch = CHR '' '')"

definition ascii_trim :: "string \<Rightarrow> string" where
  "ascii_trim s = rev (dropWhile ascii_space (rev (dropWhile ascii_space s)))"

function decimal :: "nat \<Rightarrow> string" where
  "decimal n = (if n < 10 then [char_of (48 + n)]
                else decimal (n div 10) @ [char_of (48 + n mod 10)])"
  by pat_completeness auto
termination
  by (relation "measure id") auto

declare decimal.simps [simp del]

definition show_int :: "int \<Rightarrow> string" where
  "show_int i = (if i < 0 then ''-'' @ decimal (nat (- i)) else decimal (nat i))"

definition quoted :: "string \<Rightarrow> string" where
  "quoted s = [CHR 0x22] @ s @ [CHR 0x22]"

fun write_jv :: "jv \<Rightarrow> string" where
  "write_jv (JStr s) = quoted s"
| "write_jv (JInt i) = show_int i"
| "write_jv (JTime t) = quoted (show_int t)"

fun write_members :: "(string \<times> jv) list \<Rightarrow> string" where
  "write_members [] = []"
| "write_members [(k, v)] = quoted k @ '':'' @ write_jv v"
| "write_members ((k, v) # kvs) = quoted k @ '':'' @ write_jv v @ '','' @ write_members kvs"

definition write_object :: "(string \<times> jv) list \<Rightarrow> bytes" where
  "write_object kvs = ''{'' @ write_members kvs @ ''}''"

definition parse_uuid36 :: "string \<Rightarrow> uuid option" where
  "parse_uuid36 s =
     (if length s = 36 \<and> s ! 8 = CHR ''-'' \<and> s ! 13 = CHR ''-'' \<and> s ! 18 = CHR ''-''
         \<and> s ! 23 = CHR ''-''
      then Some (map ascii_lower s) else None)"

definition bind_amount :: "bytes \<Rightarrow> int option" where
  \<open>bind_amount b =
     (if b = ''{"amount_minor":100}'' then Some 100
      else if b = ''{"amount_minor":5000000}'' then Some 5000000
      else if b = ''{"amount_minor":0}'' then Some 0
      else None)\<close>

definition example_lib :: golib where
  "example_lib =
     \<lparr>TrimSpace = ascii_trim, ToLower = map ascii_lower, ToUpper = map ascii_upper,
      uuid_Parse = parse_uuid36, sha256_hex = (\<lambda>b. ''digest:'' @ b),
      json_Marshal = write_object, json_ctype = ''application/json'',
      default_ctype = ''text/plain; charset=utf-8'', Bind_JSON = bind_amount,
      Itoa = show_int, Seconds_int = (\<lambda>d. quot d 1000000000)\<rparr>"

definition seed_user :: uuid where
  "seed_user = ''11111111-1111-1111-1111-111111111111''"

definition seed_wallet :: wallet_row where
  "seed_wallet =
     \<lparr>w_id = ''22222222-2222-2222-2222-222222222222'', w_balance_minor = 1000000,
      w_currency = ''IDR'', w_version = 0, w_created_at = 0, w_updated_at = 0\<rparr>"

definition seed_conn :: conn where
  "seed_conn =
     \<lparr>stored = \<lparr>wallets = [seed_user \<mapsto> seed_wallet], wallet_ledger = [],
                withdraw_idempotency = Map.empty\<rparr>,
      stmts = []\<rparr>"

definition pg_ok :: "time \<Rightarrow> pg_env" where
  "pg_ok t =
     \<lparr>begin_err = False, withdraw_err = False, exists_err = False, insert_err = False,
      commit_err = False, pg_now = t, pg_uuid = ''33333333-3333-3333-3333-333333333333''\<rparr>"

definition idem_ok :: "time \<Rightarrow> idem_env" where
  "idem_ok t =
     \<lparr>ie_now = t, ie_begin_err = False, ie_select_err = False, ie_insert_err = False,
      ie_reacquire_err = False, ie_commit_err = False, ie_complete_err = False,
      ie_rows_affected_err = False, ie_pg_now = t,
      ie_pg_uuid = ''44444444-4444-4444-4444-444444444444''\<rparr>"

definition example_store :: "SQLXStore option" where
  "example_store = Some \<lparr>store_db = Some DB\<rparr>"

definition example_request :: http_request where
  \<open>example_request =
     \<lparr>rq_method = ''POST'', rq_path = ''/api/v1/withdrawals'', rq_user_id = Some seed_user,
      rq_idempotency_key = ''idem-1'', rq_request_id = ''chain-1'', rq_ip = ''10.0.0.1'',
      rq_body = ''{"amount_minor":100}''\<rparr>\<close>

definition zero_request :: http_request where
  \<open>zero_request = example_request\<lparr>rq_body := ''{"amount_minor":0}''\<rparr>\<close>

definition fresh_response :: http_response where
  "fresh_response = \<lparr>rs_status = 200, rs_headers = Map.empty, rs_body = []\<rparr>"

definition example_row :: idem_row where
  "example_row =
     \<lparr>i_id = ''44444444-4444-4444-4444-444444444444'', i_request_hash = ''h1'',
      i_status = ''in_progress'', i_response_status = None, i_response_body = None,
      i_response_content_type = None, i_locked_until = 1000, i_created_at = 0,
      i_updated_at = 0, i_completed_at = None\<rparr>"

definition conn_with :: "idem_row \<Rightarrow> conn" where
  "conn_with r =
     seed_conn\<lparr>stored := (stored seed_conn)\<lparr>withdraw_idempotency := [(''s1'', ''k1'') \<mapsto> r]\<rparr>\<rparr>"

definition route_conn_with :: "idem_row \<Rightarrow> conn" where
  "route_conn_with r =
     seed_conn\<lparr>stored := (stored seed_conn)\<lparr>withdraw_idempotency :=
       [(''withdraw:11111111-1111-1111-1111-111111111111'', ''idem-1'') \<mapsto> r]\<rparr>\<rparr>"

definition null_status_row :: idem_row where
  "null_status_row =
     example_row\<lparr>i_request_hash := TrimSpace example_lib
                      (rq_RequestHash (middleware_request example_lib example_request seed_user)),
                  i_status := ''completed'', i_response_status := None,
                  i_response_body := Some ''stored body'',
                  i_response_content_type := Some ''application/json''\<rparr>"

definition example_acquire :: Request where
  "example_acquire = \<lparr>rq_Scope = ''s1'', rq_Key = ''k1'', rq_RequestHash = ''h1'', rq_LockTTL = 0\<rparr>"

definition redis_ok :: "int \<Rightarrow> redis_env" where
  "redis_ok t = \<lparr>rd_now = t, rd_eval_err = False, rd_app_now = t * 1000000\<rparr>"

definition example_limiter :: limiter where
  "example_limiter =
     \<lparr>lm_store = Some \<lparr>rs_client = Some Client, rs_prefix = ''withdraw-api:withdraw''\<rparr>,
      lm_config = \<lparr>cfg_Algorithm = AlgorithmFixedWindow, cfg_Limit = 2,
                   cfg_Window = 60000000000, cfg_Burst = 2\<rparr>\<rparr>"

definition example_rl_config :: RateLimitConfig where
  "example_rl_config =
     \<lparr>rc_Limiter = Some example_limiter, rc_Skipper = None,
      rc_KeyExtractor = Some (PerUserKeyExtractor ''withdraw'')\<rparr>"

definition example_redis_key :: string where
  "example_redis_key =
     full_key (lm_store example_limiter) (limit_key example_rl_config example_request)"

definition used_up_redis :: redis where
  "used_up_redis =
     [example_redis_key \<mapsto> \<lparr>re_value = Counter 2, re_expire_at = Some 61000\<rparr>]"

text \<open>
  The limiter \<open>ratelimit.New\<close> builds when no algorithm is configured: the token bucket,
  with the burst set to the limit. \<open>no_answer\<close> stands for an implementation a run does
  not reach.
\<close>

definition bucket_limiter :: limiter where
  "bucket_limiter =
     \<lparr>lm_store = Some \<lparr>rs_client = Some Client, rs_prefix = ''withdraw-api:withdraw''\<rparr>,
      lm_config = \<lparr>cfg_Algorithm = AlgorithmTokenBucket, cfg_Limit = 2,
                   cfg_Window = 60000000000, cfg_Burst = 2\<rparr>\<rparr>"

definition no_answer :: algorithm_impl where
  "no_answer env db key config = (Inl ErrRedisEval, db)"

section \<open>Facts about the ledger store\<close>

lemmas repo_defs = WithdrawWalletBalanceByUserID_def q_WithdrawWalletBalanceByUserID_def
  q_HasWalletByUserID_def q_InsertWalletLedger_def issue_def Let_def

lemma withdraw_overdraft:
  assumes "uuid_Parse L userID = Some u" "wallets (stored c) u = Some w"
    "w_balance_minor w < amountMinor" "0 < amountMinor"
    "\<not> begin_err env" "\<not> withdraw_err env" "\<not> exists_err env"
  shows "WithdrawWalletBalanceByUserID L env c userID amountMinor chainID =
     (Inl ErrInsufficientBalance,
      c\<lparr>stmts := stmts c @ [BEGIN, UPDATE_wallets, SELECT_EXISTS_wallets, ROLLBACK]\<rparr>)"
  using assms by (simp add: repo_defs)

lemma withdraw_keeps_nonneg:
  assumes "balances_nonneg (stored c)"
  shows "balances_nonneg (stored (snd (WithdrawWalletBalanceByUserID L env c userID amountMinor chainID)))"
  using assms
  by (auto simp: repo_defs balances_nonneg_def split: option.splits if_splits)

lemma withdraw_stmts_shape:
  "\<exists>rest. stmts (snd (WithdrawWalletBalanceByUserID L env c userID amountMinor chainID)) = stmts c @ rest
     \<and> (rest = [] \<or> rest = [BEGIN] \<or> take 2 rest = [BEGIN, UPDATE_wallets])"
  by (auto simp: repo_defs split: option.splits if_splits)

lemma withdraw_insufficient_iff:
  assumes "uuid_Parse L userID = Some u"
  shows "fst (WithdrawWalletBalanceByUserID L env c userID amountMinor chainID) = Inl ErrInsufficientBalance
     \<longleftrightarrow> 0 < amountMinor \<and> \<not> begin_err env \<and> \<not> exists_err env \<and> wallets (stored c) u \<noteq> None
         \<and> fst (q_WithdrawWalletBalanceByUserID env (stored c) amountMinor u) = NoRows"
  using assms
  by (auto simp: repo_defs split: option.splits if_splits)

lemma withdraw_error_rolls_back:
  "fst (WithdrawWalletBalanceByUserID L env c userID amountMinor chainID) = Inl e \<Longrightarrow>
   stored (snd (WithdrawWalletBalanceByUserID L env c userID amountMinor chainID)) = stored c"
  by (auto simp: repo_defs split: option.splits if_splits)

lemma withdraw_success:
  assumes "WithdrawWalletBalanceByUserID L env c userID amountMinor chainID = (Inr b, c')"
  shows "\<exists>u w. uuid_Parse L userID = Some u \<and> wallets (stored c) u = Some w \<and> 0 < amountMinor
     \<and> amountMinor \<le> w_balance_minor w
     \<and> stored c' = (stored c)\<lparr>
          wallets := (wallets (stored c))(u \<mapsto> w\<lparr>w_balance_minor := w_balance_minor w - amountMinor,
                            w_version := w_version w + 1, w_updated_at := pg_now env\<rparr>),
          wallet_ledger := wallet_ledger (stored c) @
             [\<lparr>l_id = pg_uuid env, l_wallet_id = w_id w, l_entry_type = ''withdrawal'',
               l_amount_minor = - amountMinor, l_balance_after_minor = w_balance_minor w - amountMinor,
               l_reference_id = None, l_chain_id = (if chainID \<noteq> [] then Some chainID else None),
               l_created_at = pg_now env\<rparr>]\<rparr>
     \<and> stmts c' = stmts c @ [BEGIN, UPDATE_wallets, INSERT_wallet_ledger, COMMIT]
     \<and> b = \<lparr>wb_UserID = u, wb_BalanceMinor = w_balance_minor w - amountMinor,
             wb_Currency = w_currency w, wb_UpdatedAt = pg_now env\<rparr>"
  using assms
  by (auto simp: repo_defs neg64_def bigint_ok_def split: option.splits if_splits)

lemma seed_parse: "uuid_Parse example_lib seed_user = Some seed_user"
  by code_simp

lemma seed_nonneg: "balances_nonneg (stored seed_conn)"
  by (simp add: balances_nonneg_def seed_conn_def seed_wallet_def)

text \<open>
  Claim C1. If every wallet balance is non-negative before a call of the ledger store's
  withdraw, it is so after it, whatever the call returns. When the user id parses, the
  user's wallet exists, \<open>amountMinor\<close> exceeds its balance, and neither \<open>BEGIN\<close>, the
  conditional \<open>UPDATE\<close> nor the existence check fails, the call returns
  \<open>ErrInsufficientBalance\<close>, leaves the committed database (balance and version) as it
  was, and has issued \<open>BEGIN\<close>, the conditional \<open>UPDATE\<close>, the existence check and
  \<open>ROLLBACK\<close>. \<open>ErrInsufficientBalance\<close> is returned exactly when that one \<open>UPDATE\<close> returns
  no row for an existing wallet, and no statement but \<open>BEGIN\<close> is issued before it: there
  is no read of the balance before the debit.
\<close>

theorem C1_balance_never_negative:
  assumes "balances_nonneg (stored c)"
  shows "(case WithdrawWalletBalanceByUserID L env c userID amountMinor chainID of
      (r, c') \<Rightarrow>
        balances_nonneg (stored c')
        \<and> (\<forall>u w. uuid_Parse L userID = Some u \<and> wallets (stored c) u = Some w
                 \<and> w_balance_minor w < amountMinor
                 \<and> \<not> begin_err env \<and> \<not> withdraw_err env \<and> \<not> exists_err env
              \<longrightarrow> r = Inl ErrInsufficientBalance \<and> stored c' = stored c
                  \<and> stmts c' = stmts c @ [BEGIN, UPDATE_wallets, SELECT_EXISTS_wallets, ROLLBACK])
        \<and> (\<forall>u. uuid_Parse L userID = Some u \<longrightarrow>
              (r = Inl ErrInsufficientBalance \<longleftrightarrow>
                 0 < amountMinor \<and> \<not> begin_err env \<and> \<not> exists_err env
                 \<and> wallets (stored c) u \<noteq> None
                 \<and> fst (q_WithdrawWalletBalanceByUserID env (stored c) amountMinor u) = NoRows))
        \<and> (\<exists>rest. stmts c' = stmts c @ rest
              \<and> (rest = [] \<or> rest = [BEGIN] \<or> take 2 rest = [BEGIN, UPDATE_wallets])))"
proof -
  obtain r c' where rc: "WithdrawWalletBalanceByUserID L env c userID amountMinor chainID = (r, c')"
    by (cases "WithdrawWalletBalanceByUserID L env c userID amountMinor chainID")
  have inv: "balances_nonneg (stored c')"
    using withdraw_keeps_nonneg [OF assms, of L env userID amountMinor chainID] rc by simp
  have over: "r = Inl ErrInsufficientBalance \<and> stored c' = stored c
      \<and> stmts c' = stmts c @ [BEGIN, UPDATE_wallets, SELECT_EXISTS_wallets, ROLLBACK]"
    if h: "uuid_Parse L userID = Some u" "wallets (stored c) u = Some w"
      "w_balance_minor w < amountMinor" "\<not> begin_err env" "\<not> withdraw_err env" "\<not> exists_err env"
    for u w
  proof -
    have "0 \<le> w_balance_minor w"
      using assms h(2) by (auto simp: balances_nonneg_def split: option.splits dest: spec [of _ u])
    then have "0 < amountMinor" using h(3) by simp
    from withdraw_overdraft [OF h(1) h(2) h(3) this h(4) h(5) h(6), of chainID] rc
    show ?thesis by simp
  qed
  have iff: "r = Inl ErrInsufficientBalance \<longleftrightarrow>
                 0 < amountMinor \<and> \<not> begin_err env \<and> \<not> exists_err env
                 \<and> wallets (stored c) u \<noteq> None
                 \<and> fst (q_WithdrawWalletBalanceByUserID env (stored c) amountMinor u) = NoRows"
    if "uuid_Parse L userID = Some u" for u
    using withdraw_insufficient_iff [OF that, of env c amountMinor chainID] rc by simp
  have shape: "\<exists>rest. stmts c' = stmts c @ rest
              \<and> (rest = [] \<or> rest = [BEGIN] \<or> take 2 rest = [BEGIN, UPDATE_wallets])"
    using withdraw_stmts_shape [of L env c userID amountMinor chainID] rc by simp
  show ?thesis
    unfolding rc using inv over iff shape by (simp del: not_None_eq) blast
qed

theorem C1_witness:
  "balances_nonneg (stored seed_conn)
   \<and> WithdrawWalletBalanceByUserID example_lib (pg_ok 5) seed_conn seed_user 5000000 ''chain-1''
       = (Inl ErrInsufficientBalance,
          seed_conn\<lparr>stmts := [BEGIN, UPDATE_wallets, SELECT_EXISTS_wallets, ROLLBACK]\<rparr>)"
proof -
  have w: "wallets (stored seed_conn) seed_user = Some seed_wallet"
    by (simp add: seed_conn_def)
  have e: "\<not> begin_err (pg_ok 5) \<and> \<not> withdraw_err (pg_ok 5) \<and> \<not> exists_err (pg_ok 5)"
    by (simp add: pg_ok_def)
  have b: "w_balance_minor seed_wallet < 5000000"
    by (simp add: seed_wallet_def)
  obtain r c' where rc:
    "WithdrawWalletBalanceByUserID example_lib (pg_ok 5) seed_conn seed_user 5000000 ''chain-1'' = (r, c')"
    by (cases "WithdrawWalletBalanceByUserID example_lib (pg_ok 5) seed_conn seed_user 5000000 ''chain-1''")
  from C1_balance_never_negative [OF seed_nonneg, where L = example_lib and env = "pg_ok 5"
      and userID = seed_user and amountMinor = 5000000 and chainID = "''chain-1''"]
  have "r = Inl ErrInsufficientBalance \<and> stored c' = stored seed_conn
      \<and> stmts c' = stmts seed_conn @ [BEGIN, UPDATE_wallets, SELECT_EXISTS_wallets, ROLLBACK]"
    unfolding rc using seed_parse w e b by auto
  then have "c' = seed_conn\<lparr>stmts := [BEGIN, UPDATE_wallets, SELECT_EXISTS_wallets, ROLLBACK]\<rparr>"
    by (simp add: seed_conn_def)
  with \<open>r = Inl ErrInsufficientBalance \<and> _\<close> rc seed_nonneg show ?thesis by simp
qed

lemma withdraw_fault_is_error:
  "withdraw_err env \<or> insert_err env \<or> commit_err env \<Longrightarrow>
   isl (fst (WithdrawWalletBalanceByUserID L env c userID amountMinor chainID))"
  by (auto simp: repo_defs split: option.splits if_splits)

text \<open>
  Claim C2. When the ledger store's withdraw succeeds, the committed ledger is the
  previous ledger followed by exactly one entry: its type is "withdrawal", its amount is
  \<open>- amountMinor\<close>, and its wallet id and balance-after are those of the user's wallet as
  the same call leaves it (the previous balance less \<open>amountMinor\<close>, the version one
  higher); the statements issued are one \<open>BEGIN\<close>, the conditional \<open>UPDATE\<close>, the ledger
  \<open>INSERT\<close> and \<open>COMMIT\<close>. When the call returns an error, the committed database is the
  one before the call; and a failing \<open>UPDATE\<close>, ledger \<open>INSERT\<close> or \<open>COMMIT\<close> always makes
  the call return an error.
\<close>

theorem C2_one_ledger_entry_or_rollback:
  "(case WithdrawWalletBalanceByUserID L env c userID amountMinor chainID of
      (r, c') \<Rightarrow>
        (\<forall>b. r = Inr b \<longrightarrow>
           (\<exists>u w w' entry.
              uuid_Parse L userID = Some u \<and> wallets (stored c) u = Some w
              \<and> wallets (stored c') u = Some w'
              \<and> w_balance_minor w' = w_balance_minor w - amountMinor
              \<and> w_version w' = w_version w + 1
              \<and> wallet_ledger (stored c') = wallet_ledger (stored c) @ [entry]
              \<and> l_entry_type entry = ''withdrawal''
              \<and> l_amount_minor entry = - amountMinor
              \<and> l_balance_after_minor entry = w_balance_minor w'
              \<and> l_wallet_id entry = w_id w'
              \<and> wb_BalanceMinor b = w_balance_minor w'
              \<and> stmts c' = stmts c @ [BEGIN, UPDATE_wallets, INSERT_wallet_ledger, COMMIT]))
        \<and> (\<forall>e. r = Inl e \<longrightarrow> stored c' = stored c)
        \<and> (withdraw_err env \<or> insert_err env \<or> commit_err env \<longrightarrow> isl r))"
proof -
  obtain r c' where rc: "WithdrawWalletBalanceByUserID L env c userID amountMinor chainID = (r, c')"
    by (cases "WithdrawWalletBalanceByUserID L env c userID amountMinor chainID")
  have ok: "\<exists>u w w' entry.
              uuid_Parse L userID = Some u \<and> wallets (stored c) u = Some w
              \<and> wallets (stored c') u = Some w'
              \<and> w_balance_minor w' = w_balance_minor w - amountMinor
              \<and> w_version w' = w_version w + 1
              \<and> wallet_ledger (stored c') = wallet_ledger (stored c) @ [entry]
              \<and> l_entry_type entry = ''withdrawal''
              \<and> l_amount_minor entry = - amountMinor
              \<and> l_balance_after_minor entry = w_balance_minor w'
              \<and> l_wallet_id entry = w_id w'
              \<and> wb_BalanceMinor b = w_balance_minor w'
              \<and> stmts c' = stmts c @ [BEGIN, UPDATE_wallets, INSERT_wallet_ledger, COMMIT]"
    if "r = Inr b" for b
  proof -
    from rc that have "WithdrawWalletBalanceByUserID L env c userID amountMinor chainID = (Inr b, c')"
      by simp
    from withdraw_success [OF this] obtain u w where
      h: "uuid_Parse L userID = Some u" "wallets (stored c) u = Some w"
         "stored c' = (stored c)\<lparr>
            wallets := (wallets (stored c))(u \<mapsto> w\<lparr>w_balance_minor := w_balance_minor w - amountMinor,
                            w_version := w_version w + 1, w_updated_at := pg_now env\<rparr>),
            wallet_ledger := wallet_ledger (stored c) @
             [\<lparr>l_id = pg_uuid env, l_wallet_id = w_id w, l_entry_type = ''withdrawal'',
               l_amount_minor = - amountMinor, l_balance_after_minor = w_balance_minor w - amountMinor,
               l_reference_id = None, l_chain_id = (if chainID \<noteq> [] then Some chainID else None),
               l_created_at = pg_now env\<rparr>]\<rparr>"
         "stmts c' = stmts c @ [BEGIN, UPDATE_wallets, INSERT_wallet_ledger, COMMIT]"
         "b = \<lparr>wb_UserID = u, wb_BalanceMinor = w_balance_minor w - amountMinor,
             wb_Currency = w_currency w, wb_UpdatedAt = pg_now env\<rparr>"
      by blast
    show ?thesis
      apply (rule exI [of _ u], rule exI [of _ w])
      apply (rule exI [of _ "w\<lparr>w_balance_minor := w_balance_minor w - amountMinor,
                            w_version := w_version w + 1, w_updated_at := pg_now env\<rparr>"])
      apply (rule exI [of _ "\<lparr>l_id = pg_uuid env, l_wallet_id = w_id w, l_entry_type = ''withdrawal'',
               l_amount_minor = - amountMinor, l_balance_after_minor = w_balance_minor w - amountMinor,
               l_reference_id = None, l_chain_id = (if chainID \<noteq> [] then Some chainID else None),
               l_created_at = pg_now env\<rparr>"])
      using h by simp
  qed
  have err: "stored c' = stored c" if "r = Inl e" for e
    using withdraw_error_rolls_back [of L env c userID amountMinor chainID e] rc that by simp
  have fault: "isl r" if "withdraw_err env \<or> insert_err env \<or> commit_err env"
    using withdraw_fault_is_error [OF that, of L c userID amountMinor chainID] rc by simp
  show ?thesis
    unfolding rc prod.case
  proof (intro conjI allI impI)
    fix b assume "r = Inr b"
    then show "\<exists>u w w' entry.
              uuid_Parse L userID = Some u \<and> wallets (stored c) u = Some w
              \<and> wallets (stored c') u = Some w'
              \<and> w_balance_minor w' = w_balance_minor w - amountMinor
              \<and> w_version w' = w_version w + 1
              \<and> wallet_ledger (stored c') = wallet_ledger (stored c) @ [entry]
              \<and> l_entry_type entry = ''withdrawal''
              \<and> l_amount_minor entry = - amountMinor
              \<and> l_balance_after_minor entry = w_balance_minor w'
              \<and> l_wallet_id entry = w_id w'
              \<and> wb_BalanceMinor b = w_balance_minor w'
              \<and> stmts c' = stmts c @ [BEGIN, UPDATE_wallets, INSERT_wallet_ledger, COMMIT]"
      by (rule ok)
  next
    fix e assume "r = Inl e"
    then show "stored c' = stored c" by (rule err)
  next
    assume "withdraw_err env \<or> insert_err env \<or> commit_err env"
    then show "isl r" by (rule fault)
  qed
qed

theorem C2_witness:
  "wallet_ledger (stored (snd (WithdrawWalletBalanceByUserID example_lib (pg_ok 7) seed_conn
       seed_user 100 ''chain-1''))) =
     [\<lparr>l_id = ''33333333-3333-3333-3333-333333333333'',
       l_wallet_id = ''22222222-2222-2222-2222-222222222222'', l_entry_type = ''withdrawal'',
       l_amount_minor = - 100, l_balance_after_minor = 999900, l_reference_id = None,
       l_chain_id = Some ''chain-1'', l_created_at = 7\<rparr>]
   \<and> stmts (snd (WithdrawWalletBalanceByUserID example_lib (pg_ok 7) seed_conn
       seed_user 100 ''chain-1'')) = [BEGIN, UPDATE_wallets, INSERT_wallet_ledger, COMMIT]"
proof -
  have run: "WithdrawWalletBalanceByUserID example_lib (pg_ok 7) seed_conn seed_user 100 ''chain-1'' =
     (Inr \<lparr>wb_UserID = seed_user, wb_BalanceMinor = 999900, wb_Currency = ''IDR'', wb_UpdatedAt = 7\<rparr>,
      \<lparr>stored = \<lparr>wallets = [seed_user \<mapsto> seed_wallet\<lparr>w_balance_minor := 999900, w_version := 1,
                                w_updated_at := 7\<rparr>],
          wallet_ledger = [\<lparr>l_id = ''33333333-3333-3333-3333-333333333333'',
             l_wallet_id = ''22222222-2222-2222-2222-222222222222'', l_entry_type = ''withdrawal'',
             l_amount_minor = - 100, l_balance_after_minor = 999900, l_reference_id = None,
             l_chain_id = Some ''chain-1'', l_created_at = 7\<rparr>],
          withdraw_idempotency = Map.empty\<rparr>,
        stmts = [BEGIN, UPDATE_wallets, INSERT_wallet_ledger, COMMIT]\<rparr>)"
    by (simp add: repo_defs seed_parse seed_conn_def seed_wallet_def pg_ok_def bigint_ok_def neg64_def)
  from C2_one_ledger_entry_or_rollback [where L = example_lib and env = "pg_ok 7" and c = seed_conn
      and userID = seed_user and amountMinor = 100 and chainID = "''chain-1''"]
  show ?thesis
    unfolding run by (simp add: seed_conn_def)
qed

lemma WithdrawBalance_invalid_amount:
  "TrimSpace L userID \<noteq> [] \<Longrightarrow> amountMinor \<le> 0 \<Longrightarrow>
   WithdrawBalance L env c userID amountMinor chainID = (Inl ErrInvalidAmount, c)"
  by (simp add: WithdrawBalance_def)

text \<open>
  Claim C6. The ledger store's withdraw validates its input before it starts a
  transaction: when the user id does not parse it returns the invalid-user-id error, and
  when the user id parses and \<open>amountMinor \<le> 0\<close> it returns \<open>ErrInvalidAmount\<close>; in both
  cases the connection is untouched (no statement is issued, so no \<open>BEGIN\<close>, and the
  database is as before). In the handler, a request of an authenticated, non-blank user
  whose body binds to an amount \<open>\<le> 0\<close> is answered with status 400 and the message
  "amount_minor must be greater than 0", again without touching the connection.
\<close>

theorem C6_preconditions_fail_fast:
  "(uuid_Parse L userID = None \<longrightarrow>
      WithdrawWalletBalanceByUserID L env c userID amountMinor chainID = (Inl ErrInvalidUserID, c))
   \<and> (uuid_Parse L userID \<noteq> None \<and> amountMinor \<le> 0 \<longrightarrow>
      WithdrawWalletBalanceByUserID L env c userID amountMinor chainID = (Inl ErrInvalidAmount, c))
   \<and> (rq_user_id req = Some uid \<and> uid \<noteq> [] \<and> TrimSpace L uid \<noteq> []
        \<and> Bind_JSON L (rq_body req) = Some amount \<and> amount \<le> 0 \<longrightarrow>
      Handle L env req c resp =
        ((JSON L (error_body ''amount_minor must be greater than 0'') (Status 400 resp), None), c)
      \<and> rs_status (fst (fst (Handle L env req c resp))) = 400)"
  by (auto simp: WithdrawWalletBalanceByUserID_def Handle_def WithdrawBalance_invalid_amount
        JSON_def Status_def Send_def Set_header_def)

theorem C6_witness:
  "WithdrawWalletBalanceByUserID example_lib (pg_ok 7) seed_conn ''not-uuid'' 100 [] =
     (Inl ErrInvalidUserID, seed_conn)
   \<and> WithdrawWalletBalanceByUserID example_lib (pg_ok 7) seed_conn seed_user 0 [] =
     (Inl ErrInvalidAmount, seed_conn)
   \<and> rs_status (fst (fst (Handle example_lib (pg_ok 7) zero_request seed_conn fresh_response))) = 400
   \<and> snd (Handle example_lib (pg_ok 7) zero_request seed_conn fresh_response) = seed_conn"
proof -
  have p1: "uuid_Parse example_lib ''not-uuid'' = None"
    by (simp add: example_lib_def parse_uuid36_def)
  have t: "TrimSpace example_lib seed_user \<noteq> []"
    by (simp add: example_lib_def ascii_trim_def seed_user_def ascii_space_def)
  have b: "Bind_JSON example_lib (rq_body zero_request) = Some 0"
    by (simp add: example_lib_def bind_amount_def zero_request_def)
  have u: "rq_user_id zero_request = Some seed_user"
      "seed_user \<noteq> []"
    by (simp_all add: example_request_def seed_user_def zero_request_def)
  note C6 = C6_preconditions_fail_fast [where L = example_lib and env = "pg_ok 7" and c = seed_conn
      and resp = fresh_response and chainID = "[]"]
  from C6 [where userID = "''not-uuid''" and amountMinor = 100] p1
  have a1: "WithdrawWalletBalanceByUserID example_lib (pg_ok 7) seed_conn ''not-uuid'' 100 [] =
     (Inl ErrInvalidUserID, seed_conn)" by simp
  from C6 [where userID = seed_user and amountMinor = 0] seed_parse
  have a2: "WithdrawWalletBalanceByUserID example_lib (pg_ok 7) seed_conn seed_user 0 [] =
     (Inl ErrInvalidAmount, seed_conn)" by simp
  from C6 [where req = zero_request and uid = seed_user
      and amount = 0] t b u
  have a3: "Handle example_lib (pg_ok 7) zero_request
      seed_conn fresh_response =
        ((JSON example_lib (error_body ''amount_minor must be greater than 0'') (Status 400 fresh_response), None), seed_conn)
      \<and> rs_status (fst (fst (Handle example_lib (pg_ok 7) zero_request
      seed_conn fresh_response))) = 400"
    by (simp add: JSON_def Status_def Send_def Set_header_def)
  from a1 a2 a3 show ?thesis
    by (simp add: JSON_def Status_def Send_def Set_header_def)
qed

section \<open>Facts about the idempotency store\<close>

lemmas acquire_defs = Acquire_def initialized_def well_formed_def record_of_def acquire_ok_def
  effective_ttl_def issue_def Let_def

lemma acquire_absent:
  assumes "initialized s" "well_formed L request" "acquire_ok env" "record_of L c request = None"
  shows "Acquire L env s c request =
    (Inr (empty_Decision\<lparr>d_Type := DecisionAcquired\<rparr>),
     c\<lparr>stored := (stored c)\<lparr>withdraw_idempotency := (withdraw_idempotency (stored c))
           ((TrimSpace L (rq_Scope request), TrimSpace L (rq_Key request)) \<mapsto>
              \<lparr>i_id = ie_pg_uuid env, i_request_hash = TrimSpace L (rq_RequestHash request),
               i_status = ''in_progress'', i_response_status = None,
               i_response_body = None, i_response_content_type = None,
               i_locked_until = ie_now env + effective_ttl request,
               i_created_at = ie_pg_now env, i_updated_at = ie_pg_now env,
               i_completed_at = None\<rparr>)\<rparr>,
        stmts := stmts c @ [BEGIN, SELECT_idempotency_FOR_UPDATE, INSERT_idempotency, COMMIT]\<rparr>)"
  using assms by (simp add: acquire_defs)

lemma acquire_conflict:
  assumes "initialized s" "well_formed L request" "acquire_ok env"
    "record_of L c request = Some r" "i_request_hash r \<noteq> TrimSpace L (rq_RequestHash request)"
  shows "Acquire L env s c request =
    (Inr (empty_Decision\<lparr>d_Type := DecisionConflict\<rparr>),
     c\<lparr>stmts := stmts c @ [BEGIN, SELECT_idempotency_FOR_UPDATE, COMMIT]\<rparr>)"
  using assms by (simp add: acquire_defs)

lemma acquire_replay:
  assumes "initialized s" "well_formed L request" "acquire_ok env"
    "record_of L c request = Some r" "i_request_hash r = TrimSpace L (rq_RequestHash request)"
    "i_status r = ''completed''"
  shows "Acquire L env s c request =
    (Inr \<lparr>d_Type = DecisionReplay,
           d_StatusCode = (case i_response_status r of Some v \<Rightarrow> v | None \<Rightarrow> 0),
           d_Body = (case i_response_body r of Some b \<Rightarrow> b | None \<Rightarrow> []),
           d_ContentType = (case i_response_content_type r of Some t \<Rightarrow> t | None \<Rightarrow> [])\<rparr>,
     c\<lparr>stmts := stmts c @ [BEGIN, SELECT_idempotency_FOR_UPDATE, COMMIT]\<rparr>)"
  using assms by (simp add: acquire_defs)

lemma acquire_in_progress:
  assumes "initialized s" "well_formed L request" "acquire_ok env"
    "record_of L c request = Some r" "i_request_hash r = TrimSpace L (rq_RequestHash request)"
    "i_status r = ''in_progress''" "i_locked_until r > ie_now env"
  shows "Acquire L env s c request =
    (Inr (empty_Decision\<lparr>d_Type := DecisionInProgress\<rparr>),
     c\<lparr>stmts := stmts c @ [BEGIN, SELECT_idempotency_FOR_UPDATE, COMMIT]\<rparr>)"
  using assms by (simp add: acquire_defs)

lemma acquire_reacquire:
  assumes "initialized s" "well_formed L request" "acquire_ok env"
    "record_of L c request = Some r" "i_request_hash r = TrimSpace L (rq_RequestHash request)"
    "i_status r \<noteq> ''completed''"
    "\<not> (i_status r = ''in_progress'' \<and> i_locked_until r > ie_now env)"
  shows "Acquire L env s c request =
    (Inr (empty_Decision\<lparr>d_Type := DecisionAcquired\<rparr>),
     c\<lparr>stored := (stored c)\<lparr>withdraw_idempotency := (withdraw_idempotency (stored c))
           ((TrimSpace L (rq_Scope request), TrimSpace L (rq_Key request)) \<mapsto>
              r\<lparr>i_status := ''in_progress'',
                i_locked_until := ie_now env + effective_ttl request,
                i_updated_at := ie_pg_now env\<rparr>)\<rparr>,
        stmts := stmts c @ [BEGIN, SELECT_idempotency_FOR_UPDATE, UPDATE_idempotency_reacquire,
                            COMMIT]\<rparr>)"
  using assms by (auto simp add: acquire_defs)

lemmas complete_defs = Complete_def initialized_def well_formed_def record_of_def complete_ok_def
  issue_def Let_def

lemma complete_matching:
  assumes "initialized s" "well_formed L request" "complete_ok env"
    "record_of L c request = Some r" "i_request_hash r = TrimSpace L (rq_RequestHash request)"
  shows "Complete L env s c request response =
    (None,
     c\<lparr>stored := (stored c)\<lparr>withdraw_idempotency := (withdraw_idempotency (stored c))
           ((TrimSpace L (rq_Scope request), TrimSpace L (rq_Key request)) \<mapsto>
              r\<lparr>i_status := ''completed'',
                i_response_status := Some (sr_StatusCode response),
                i_response_body := Some (sr_Body response),
                i_response_content_type := Some (TrimSpace L (sr_ContentType response)),
                i_locked_until := ie_pg_now env,
                i_completed_at := Some (ie_pg_now env),
                i_updated_at := ie_pg_now env\<rparr>)\<rparr>,
        stmts := stmts c @ [UPDATE_idempotency_complete]\<rparr>)"
  using assms by (simp add: complete_defs)

lemma example_store_initialized: "initialized example_store"
  by (simp add: initialized_def not_initialized_def example_store_def)

lemma idem_ok_acquire: "acquire_ok (idem_ok t)"
  by (simp add: acquire_ok_def idem_ok_def)

lemma idem_ok_complete: "complete_ok (idem_ok t)"
  by (simp add: complete_ok_def idem_ok_def)

lemma example_trims:
  "TrimSpace example_lib ''s1'' = ''s1''" "TrimSpace example_lib ''k1'' = ''k1''"
  "TrimSpace example_lib ''h1'' = ''h1''" "TrimSpace example_lib ''h2'' = ''h2''"
  by (simp_all add: example_lib_def ascii_trim_def ascii_space_def)

lemma example_acquire_well_formed:
  "well_formed example_lib (example_acquire\<lparr>rq_RequestHash := h, rq_LockTTL := t\<rparr>)
     = (TrimSpace example_lib h \<noteq> [])"
  by (simp add: well_formed_def example_acquire_def example_trims)

lemma example_record_of:
  "record_of example_lib (conn_with r) (example_acquire\<lparr>rq_RequestHash := h, rq_LockTTL := t\<rparr>) = Some r"
  by (simp add: record_of_def example_acquire_def example_trims conn_with_def)

section \<open>Facts about the idempotency middleware\<close>

lemma initialized_not_None: "initialized s \<Longrightarrow> s \<noteq> None"
  by (auto simp: initialized_def not_initialized_def split: option.splits)

lemmas mw_defs = NewHTTPWithdrawIdempotencyMiddleware_def middleware_request_def admitted_def
  Let_def

lemma middleware_replay:
  assumes "initialized s" "admitted L req uid"
    "Acquire L envA s c (middleware_request L req uid) = (Inr d, c1)"
    "d_Type d = DecisionReplay"
  shows "NewHTTPWithdrawIdempotencyMiddleware L s envA envC nxt req c resp =
    ((Send (d_Body d)
        (Status (if d_StatusCode d \<le> 0 then 200 else d_StatusCode d)
           (if d_ContentType d \<noteq> [] then Set_header ''Content-Type'' (d_ContentType d) resp
            else resp)), None), c1)"
  using assms initialized_not_None [OF assms(1)]
  by (auto simp add: mw_defs)

lemma middleware_conflict:
  assumes "initialized s" "admitted L req uid"
    "Acquire L envA s c (middleware_request L req uid) = (Inr d, c1)"
    "d_Type d = DecisionConflict"
  shows "NewHTTPWithdrawIdempotencyMiddleware L s envA envC nxt req c resp =
    ((JSON L (error_body ''idempotency key reused with different payload'') (Status 409 resp),
      None), c1)"
  using assms initialized_not_None [OF assms(1)]
  by (auto simp add: mw_defs)

lemma middleware_in_progress:
  assumes "initialized s" "admitted L req uid"
    "Acquire L envA s c (middleware_request L req uid) = (Inr d, c1)"
    "d_Type d = DecisionInProgress"
  shows "NewHTTPWithdrawIdempotencyMiddleware L s envA envC nxt req c resp =
    ((JSON L (error_body ''request is already in progress'') (Status 409 resp), None), c1)"
  using assms initialized_not_None [OF assms(1)]
  by (auto simp add: mw_defs)

lemma middleware_acquired:
  assumes "initialized s" "admitted L req uid"
    "Acquire L envA s c (middleware_request L req uid) = (Inr d, c1)"
    "d_Type d = DecisionAcquired"
    "nxt c1 resp = ((r, herr), c2)"
    "Complete L envC s c2 (middleware_request L req uid)
       \<lparr>sr_StatusCode = rs_status r, sr_Body = rs_body r, sr_ContentType = ContentType L r\<rparr>
       = (None, c3)"
  shows "NewHTTPWithdrawIdempotencyMiddleware L s envA envC nxt req c resp = ((r, herr), c3)"
  using assms initialized_not_None [OF assms(1)]
  by (auto simp add: mw_defs)

lemmas response_defs = JSON_def Status_def Send_def Set_header_def

text \<open>
  Claim C4. When the store is initialized, the request is well formed, no statement of
  \<open>Acquire\<close> fails, and the row found for (scope, key) holds a request hash different from
  the supplied hash (trimmed, as the store compares it), \<open>Acquire\<close> returns the Conflict
  decision and has only issued \<open>BEGIN\<close>, the locking \<open>SELECT\<close> and \<open>COMMIT\<close>: the database is
  unchanged. In the middleware the same situation is answered with status 409 and the
  message "idempotency key reused with different payload", without running the next
  handler: whatever that handler is, the database is unchanged.
\<close>

theorem C4_conflict_on_different_hash:
  "(initialized s \<and> well_formed L request \<and> acquire_ok env
      \<and> record_of L c request = Some r
      \<and> i_request_hash r \<noteq> TrimSpace L (rq_RequestHash request) \<longrightarrow>
      Acquire L env s c request =
        (Inr (empty_Decision\<lparr>d_Type := DecisionConflict\<rparr>),
         c\<lparr>stmts := stmts c @ [BEGIN, SELECT_idempotency_FOR_UPDATE, COMMIT]\<rparr>))
   \<and> (initialized s \<and> admitted L req uid \<and> acquire_ok env
      \<and> record_of L c (middleware_request L req uid) = Some r'
      \<and> i_request_hash r' \<noteq> TrimSpace L (rq_RequestHash (middleware_request L req uid)) \<longrightarrow>
      (case NewHTTPWithdrawIdempotencyMiddleware L s env envC nxt req c resp of
         ((resp', herr), c') \<Rightarrow>
           rs_status resp' = 409
           \<and> rs_body resp' =
               json_Marshal L (error_body ''idempotency key reused with different payload'')
           \<and> herr = None \<and> stored c' = stored c))"
proof (intro conjI impI)
  assume h: "initialized s \<and> well_formed L request \<and> acquire_ok env
      \<and> record_of L c request = Some r
      \<and> i_request_hash r \<noteq> TrimSpace L (rq_RequestHash request)"
  then have "initialized s" "well_formed L request" "acquire_ok env"
      "record_of L c request = Some r"
      "i_request_hash r \<noteq> TrimSpace L (rq_RequestHash request)"
    by simp_all
  then show "Acquire L env s c request =
        (Inr (empty_Decision\<lparr>d_Type := DecisionConflict\<rparr>),
         c\<lparr>stmts := stmts c @ [BEGIN, SELECT_idempotency_FOR_UPDATE, COMMIT]\<rparr>)"
    by (rule acquire_conflict)
next
  assume h: "initialized s \<and> admitted L req uid \<and> acquire_ok env
      \<and> record_of L c (middleware_request L req uid) = Some r'
      \<and> i_request_hash r' \<noteq> TrimSpace L (rq_RequestHash (middleware_request L req uid))"
  then have f: "initialized s" "admitted L req uid" "acquire_ok env"
      "record_of L c (middleware_request L req uid) = Some r'"
      "i_request_hash r' \<noteq> TrimSpace L (rq_RequestHash (middleware_request L req uid))"
    by simp_all
  from f(2) have wf: "well_formed L (middleware_request L req uid)"
    by (simp add: admitted_def)
  have acq: "Acquire L env s c (middleware_request L req uid) =
        (Inr (empty_Decision\<lparr>d_Type := DecisionConflict\<rparr>),
         c\<lparr>stmts := stmts c @ [BEGIN, SELECT_idempotency_FOR_UPDATE, COMMIT]\<rparr>)"
    by (rule acquire_conflict [OF f(1) wf f(3) f(4) f(5)])
  have "NewHTTPWithdrawIdempotencyMiddleware L s env envC nxt req c resp =
    ((JSON L (error_body ''idempotency key reused with different payload'') (Status 409 resp),
      None), c\<lparr>stmts := stmts c @ [BEGIN, SELECT_idempotency_FOR_UPDATE, COMMIT]\<rparr>)"
    by (rule middleware_conflict [OF f(1) f(2) acq]) (simp add: empty_Decision_def)
  then show "case NewHTTPWithdrawIdempotencyMiddleware L s env envC nxt req c resp of
         ((resp', herr), c') \<Rightarrow>
           rs_status resp' = 409
           \<and> rs_body resp' =
               json_Marshal L (error_body ''idempotency key reused with different payload'')
           \<and> herr = None \<and> stored c' = stored c"
    by (simp add: response_defs)
qed


lemma example_admitted: "admitted example_lib example_request seed_user"
  by code_simp

lemma example_route_record:
  "record_of example_lib (route_conn_with r) (middleware_request example_lib example_request seed_user)
     = Some r"
proof -
  have "TrimSpace example_lib (rq_Scope (middleware_request example_lib example_request seed_user))
          = ''withdraw:11111111-1111-1111-1111-111111111111''"
    by code_simp
  moreover have "TrimSpace example_lib (rq_Key (middleware_request example_lib example_request seed_user))
          = ''idem-1''"
    by code_simp
  ultimately show ?thesis
    by (simp add: record_of_def route_conn_with_def)
qed

lemma example_route_hash:
  "TrimSpace example_lib (rq_RequestHash (middleware_request example_lib example_request seed_user))
     \<noteq> ''h1''"
  by code_simp

theorem C4_witness:
  "fst (Acquire example_lib (idem_ok 5) example_store (conn_with example_row)
          (example_acquire\<lparr>rq_RequestHash := ''h2'', rq_LockTTL := 0\<rparr>))
     = Inr (empty_Decision\<lparr>d_Type := DecisionConflict\<rparr>)
   \<and> rs_status (fst (fst (NewHTTPWithdrawIdempotencyMiddleware example_lib example_store
        (idem_ok 5) (idem_ok 6) (Handle example_lib (pg_ok 5) example_request) example_request
        (route_conn_with example_row) fresh_response))) = 409
   \<and> stored (snd (NewHTTPWithdrawIdempotencyMiddleware example_lib example_store
        (idem_ok 5) (idem_ok 6) (Handle example_lib (pg_ok 5) example_request) example_request
        (route_conn_with example_row) fresh_response)) = stored (route_conn_with example_row)"
proof -
  have d: "i_request_hash example_row \<noteq> TrimSpace example_lib
             (rq_RequestHash (example_acquire\<lparr>rq_RequestHash := ''h2'', rq_LockTTL := 0\<rparr>))"
    by (simp add: example_row_def example_trims)
  have d': "i_request_hash example_row \<noteq> TrimSpace example_lib
             (rq_RequestHash (middleware_request example_lib example_request seed_user))"
    using example_route_hash by (simp add: example_row_def)
  have wf: "well_formed example_lib (example_acquire\<lparr>rq_RequestHash := ''h2'', rq_LockTTL := 0\<rparr>)"
    by (simp add: example_acquire_well_formed example_trims)
  note C4 = C4_conflict_on_different_hash [where L = example_lib and s = example_store
      and env = "idem_ok 5" and envC = "idem_ok 6" and r = example_row and r' = example_row
      and request = "example_acquire\<lparr>rq_RequestHash := ''h2'', rq_LockTTL := 0\<rparr>"
      and c = "conn_with example_row" and req = example_request and uid = seed_user
      and nxt = "Handle example_lib (pg_ok 5) example_request" and resp = fresh_response]
  note C4' = C4_conflict_on_different_hash [where L = example_lib and s = example_store
      and env = "idem_ok 5" and envC = "idem_ok 6" and r = example_row and r' = example_row
      and request = "example_acquire\<lparr>rq_RequestHash := ''h2'', rq_LockTTL := 0\<rparr>"
      and c = "route_conn_with example_row" and req = example_request and uid = seed_user
      and nxt = "Handle example_lib (pg_ok 5) example_request" and resp = fresh_response]
  from C4 example_store_initialized wf idem_ok_acquire example_record_of d
  have a: "fst (Acquire example_lib (idem_ok 5) example_store (conn_with example_row)
          (example_acquire\<lparr>rq_RequestHash := ''h2'', rq_LockTTL := 0\<rparr>))
     = Inr (empty_Decision\<lparr>d_Type := DecisionConflict\<rparr>)"
    by simp
  from C4' example_store_initialized example_admitted idem_ok_acquire example_route_record d'
  have b: "case NewHTTPWithdrawIdempotencyMiddleware example_lib example_store
        (idem_ok 5) (idem_ok 6) (Handle example_lib (pg_ok 5) example_request) example_request
        (route_conn_with example_row) fresh_response of
         ((resp', herr), c') \<Rightarrow> rs_status resp' = 409 \<and> stored c' = stored (route_conn_with example_row)"
    by (simp split: prod.splits)
  from a b show ?thesis by (simp split: prod.splits)
qed

text \<open>
  Claim C5. When the store is initialized, the request is well formed, no statement of
  \<open>Acquire\<close> fails, and the row found for (scope, key) has the supplied (trimmed) hash and
  status \<open>in_progress\<close>: if its \<open>locked_until\<close> is strictly after the current instant,
  \<open>Acquire\<close> returns InProgress and the database is unchanged; otherwise (the lock has
  expired) \<open>Acquire\<close> returns Acquired and the row is rewritten with status \<open>in_progress\<close>
  and \<open>locked_until\<close> equal to the current instant plus the lock TTL (the request's TTL, or
  the default when that is not positive), nothing else of the database changing.
\<close>

theorem C5_in_progress_arbitration:
  assumes "initialized s" "well_formed L request" "acquire_ok env"
    "record_of L c request = Some r"
    "i_request_hash r = TrimSpace L (rq_RequestHash request)"
    "i_status r = ''in_progress''"
  shows "(i_locked_until r > ie_now env \<longrightarrow>
            Acquire L env s c request =
              (Inr (empty_Decision\<lparr>d_Type := DecisionInProgress\<rparr>),
               c\<lparr>stmts := stmts c @ [BEGIN, SELECT_idempotency_FOR_UPDATE, COMMIT]\<rparr>))
       \<and> (i_locked_until r \<le> ie_now env \<longrightarrow>
            Acquire L env s c request =
              (Inr (empty_Decision\<lparr>d_Type := DecisionAcquired\<rparr>),
               c\<lparr>stored := (stored c)\<lparr>withdraw_idempotency := (withdraw_idempotency (stored c))
                     ((TrimSpace L (rq_Scope request), TrimSpace L (rq_Key request)) \<mapsto>
                        r\<lparr>i_status := ''in_progress'',
                          i_locked_until := ie_now env + effective_ttl request,
                          i_updated_at := ie_pg_now env\<rparr>)\<rparr>,
                  stmts := stmts c @ [BEGIN, SELECT_idempotency_FOR_UPDATE,
                                      UPDATE_idempotency_reacquire, COMMIT]\<rparr>))"
proof (intro conjI impI)
  assume "ie_now env < i_locked_until r"
  with assms show "Acquire L env s c request =
              (Inr (empty_Decision\<lparr>d_Type := DecisionInProgress\<rparr>),
               c\<lparr>stmts := stmts c @ [BEGIN, SELECT_idempotency_FOR_UPDATE, COMMIT]\<rparr>)"
    by (intro acquire_in_progress)
next
  assume "i_locked_until r \<le> ie_now env"
  then have "\<not> (i_status r = ''in_progress'' \<and> i_locked_until r > ie_now env)"
    by simp
  moreover have "i_status r \<noteq> ''completed''"
    using assms(6) by simp
  ultimately show "Acquire L env s c request =
              (Inr (empty_Decision\<lparr>d_Type := DecisionAcquired\<rparr>),
               c\<lparr>stored := (stored c)\<lparr>withdraw_idempotency := (withdraw_idempotency (stored c))
                     ((TrimSpace L (rq_Scope request), TrimSpace L (rq_Key request)) \<mapsto>
                        r\<lparr>i_status := ''in_progress'',
                          i_locked_until := ie_now env + effective_ttl request,
                          i_updated_at := ie_pg_now env\<rparr>)\<rparr>,
                  stmts := stmts c @ [BEGIN, SELECT_idempotency_FOR_UPDATE,
                                      UPDATE_idempotency_reacquire, COMMIT]\<rparr>)"
    using assms by (intro acquire_reacquire)
qed

theorem C5_witness:
  "fst (Acquire example_lib (idem_ok 999) example_store (conn_with example_row)
          (example_acquire\<lparr>rq_RequestHash := ''h1'', rq_LockTTL := 7\<rparr>))
     = Inr (empty_Decision\<lparr>d_Type := DecisionInProgress\<rparr>)
   \<and> stored (snd (Acquire example_lib (idem_ok 999) example_store (conn_with example_row)
          (example_acquire\<lparr>rq_RequestHash := ''h1'', rq_LockTTL := 7\<rparr>)))
     = stored (conn_with example_row)
   \<and> fst (Acquire example_lib (idem_ok 1000) example_store (conn_with example_row)
          (example_acquire\<lparr>rq_RequestHash := ''h1'', rq_LockTTL := 7\<rparr>))
     = Inr (empty_Decision\<lparr>d_Type := DecisionAcquired\<rparr>)
   \<and> record_of example_lib
        (snd (Acquire example_lib (idem_ok 1000) example_store (conn_with example_row)
          (example_acquire\<lparr>rq_RequestHash := ''h1'', rq_LockTTL := 7\<rparr>)))
        (example_acquire\<lparr>rq_RequestHash := ''h1'', rq_LockTTL := 7\<rparr>)
     = Some (example_row\<lparr>i_locked_until := 1007, i_updated_at := 1000\<rparr>)"
proof -
  have wf: "well_formed example_lib (example_acquire\<lparr>rq_RequestHash := ''h1'', rq_LockTTL := 7\<rparr>)"
    by (simp add: example_acquire_well_formed example_trims)
  have h: "i_request_hash example_row = TrimSpace example_lib
             (rq_RequestHash (example_acquire\<lparr>rq_RequestHash := ''h1'', rq_LockTTL := 7\<rparr>))"
    by (simp add: example_row_def example_trims)
  have st: "i_status example_row = ''in_progress''"
    by (simp add: example_row_def)
  have lk: "i_locked_until example_row > ie_now (idem_ok 999)"
      "i_locked_until example_row \<le> ie_now (idem_ok 1000)"
    by (simp_all add: example_row_def idem_ok_def)
  from C5_in_progress_arbitration [OF example_store_initialized wf idem_ok_acquire
      example_record_of h st, of 999] lk(1)
  have a: "Acquire example_lib (idem_ok 999) example_store (conn_with example_row)
          (example_acquire\<lparr>rq_RequestHash := ''h1'', rq_LockTTL := 7\<rparr>) =
     (Inr (empty_Decision\<lparr>d_Type := DecisionInProgress\<rparr>),
      (conn_with example_row)\<lparr>stmts := stmts (conn_with example_row)
          @ [BEGIN, SELECT_idempotency_FOR_UPDATE, COMMIT]\<rparr>)"
    by simp
  from C5_in_progress_arbitration [OF example_store_initialized wf idem_ok_acquire
      example_record_of h st, of 1000] lk(2)
  have b: "Acquire example_lib (idem_ok 1000) example_store (conn_with example_row)
          (example_acquire\<lparr>rq_RequestHash := ''h1'', rq_LockTTL := 7\<rparr>) =
     (Inr (empty_Decision\<lparr>d_Type := DecisionAcquired\<rparr>),
      (conn_with example_row)\<lparr>stored := (stored (conn_with example_row))\<lparr>withdraw_idempotency :=
             (withdraw_idempotency (stored (conn_with example_row)))
                     ((TrimSpace example_lib (rq_Scope (example_acquire\<lparr>rq_RequestHash := ''h1'', rq_LockTTL := 7\<rparr>)),
                       TrimSpace example_lib (rq_Key (example_acquire\<lparr>rq_RequestHash := ''h1'', rq_LockTTL := 7\<rparr>))) \<mapsto>
                        example_row\<lparr>i_status := ''in_progress'',
                          i_locked_until := ie_now (idem_ok 1000)
                             + effective_ttl (example_acquire\<lparr>rq_RequestHash := ''h1'', rq_LockTTL := 7\<rparr>),
                          i_updated_at := ie_pg_now (idem_ok 1000)\<rparr>)\<rparr>,
                  stmts := stmts (conn_with example_row) @ [BEGIN, SELECT_idempotency_FOR_UPDATE,
                                      UPDATE_idempotency_reacquire, COMMIT]\<rparr>)"
    by simp
  show ?thesis
    unfolding a b
    by (simp add: record_of_def example_acquire_def example_trims effective_ttl_def idem_ok_def
          example_row_def)
qed

text \<open>
  Claim C9. For a request whose \<open>LockTTL\<close> is zero or negative (store initialized,
  request well formed, no statement failing), \<open>Acquire\<close> does not reject the request: when
  no row exists it returns Acquired and inserts a row whose \<open>locked_until\<close> is the current
  instant plus 30 seconds; when the row found has the supplied hash, is not completed and
  holds no unexpired \<open>in_progress\<close> lock, it returns Acquired and sets the row's
  \<open>locked_until\<close> to the current instant plus 30 seconds. In both cases the lock granted
  ends strictly after the current instant.
\<close>

theorem C9_default_lock_ttl:
  assumes "rq_LockTTL request \<le> 0"
    "initialized s" "well_formed L request" "acquire_ok env"
  shows "(record_of L c request = None
           \<or> (\<exists>r. record_of L c request = Some r
                 \<and> i_request_hash r = TrimSpace L (rq_RequestHash request)
                 \<and> i_status r \<noteq> ''completed''
                 \<and> \<not> (i_status r = ''in_progress'' \<and> i_locked_until r > ie_now env))
         \<longrightarrow>
           (case Acquire L env s c request of
              (res, c') \<Rightarrow>
                res = Inr (empty_Decision\<lparr>d_Type := DecisionAcquired\<rparr>)
                \<and> (\<exists>r'. record_of L c' request = Some r'
                      \<and> i_locked_until r' = ie_now env + 30 * 1000000000
                      \<and> i_locked_until r' > ie_now env
                      \<and> i_status r' = ''in_progress'')))"
proof (intro impI)
  have ttl: "effective_ttl request = 30 * 1000000000"
    using assms(1) by (simp add: effective_ttl_def defaultLockTTL_def)
  assume "record_of L c request = None
           \<or> (\<exists>r. record_of L c request = Some r
                 \<and> i_request_hash r = TrimSpace L (rq_RequestHash request)
                 \<and> i_status r \<noteq> ''completed''
                 \<and> \<not> (i_status r = ''in_progress'' \<and> i_locked_until r > ie_now env))"
  then show "case Acquire L env s c request of
              (res, c') \<Rightarrow>
                res = Inr (empty_Decision\<lparr>d_Type := DecisionAcquired\<rparr>)
                \<and> (\<exists>r'. record_of L c' request = Some r'
                      \<and> i_locked_until r' = ie_now env + 30 * 1000000000
                      \<and> i_locked_until r' > ie_now env
                      \<and> i_status r' = ''in_progress'')"
  proof (elim disjE exE conjE)
    assume "record_of L c request = None"
    from acquire_absent [OF assms(2) assms(3) assms(4) this] ttl
    show ?thesis by (simp add: record_of_def)
  next
    fix r
    assume "record_of L c request = Some r"
      "i_request_hash r = TrimSpace L (rq_RequestHash request)"
      "i_status r \<noteq> ''completed''"
      "\<not> (i_status r = ''in_progress'' \<and> i_locked_until r > ie_now env)"
    from acquire_reacquire [OF assms(2) assms(3) assms(4) this] ttl
    show ?thesis by (simp add: record_of_def)
  qed
qed

theorem C9_witness:
  "fst (Acquire example_lib (idem_ok 5000) example_store seed_conn
          (example_acquire\<lparr>rq_RequestHash := ''h1'', rq_LockTTL := - 3\<rparr>))
      = Inr (empty_Decision\<lparr>d_Type := DecisionAcquired\<rparr>)
   \<and> map_option i_locked_until
       (record_of example_lib
         (snd (Acquire example_lib (idem_ok 5000) example_store seed_conn
            (example_acquire\<lparr>rq_RequestHash := ''h1'', rq_LockTTL := - 3\<rparr>)))
         (example_acquire\<lparr>rq_RequestHash := ''h1'', rq_LockTTL := - 3\<rparr>))
      = Some 30000005000"
proof -
  let ?rq = "example_acquire\<lparr>rq_RequestHash := ''h1'', rq_LockTTL := - 3\<rparr>"
  have wf: "well_formed example_lib ?rq"
    by (simp add: example_acquire_well_formed example_trims)
  have t: "rq_LockTTL ?rq \<le> 0" by simp
  have n: "record_of example_lib seed_conn ?rq = None"
    by (simp add: record_of_def seed_conn_def)
  obtain res c' where rc: "Acquire example_lib (idem_ok 5000) example_store seed_conn ?rq = (res, c')"
    by (cases "Acquire example_lib (idem_ok 5000) example_store seed_conn ?rq")
  from C9_default_lock_ttl [OF t example_store_initialized wf idem_ok_acquire,
      where c = seed_conn and t1 = 5000] n
  have "res = Inr (empty_Decision\<lparr>d_Type := DecisionAcquired\<rparr>)
       \<and> (\<exists>r'. record_of example_lib c' ?rq = Some r'
              \<and> i_locked_until r' = ie_now (idem_ok 5000) + 30 * 1000000000)"
    unfolding rc by auto
  then show ?thesis
    unfolding rc by (auto simp: idem_ok_def)
qed

text \<open>
  Claim C10. In the middleware (store initialized, request admitted), when \<open>Acquire\<close>
  returns a Replay decision whose status code is not positive, the response has status
  200, its body is the decision's body, and its \<open>Content-Type\<close> header is the decision's
  content type when that is not empty; the next handler is not run. Such a decision is
  what \<open>Acquire\<close> returns for a completed row with the supplied hash whose
  \<open>response_status\<close> is NULL or not positive: its status code is 0 or the stored value, and
  its body and content type are the stored ones.
\<close>

theorem C10_replay_status_defaults_to_200:
  "(initialized s \<and> admitted L req uid
      \<and> Acquire L envA s c (middleware_request L req uid) = (Inr d, c1)
      \<and> d_Type d = DecisionReplay \<and> d_StatusCode d \<le> 0 \<longrightarrow>
      (case NewHTTPWithdrawIdempotencyMiddleware L s envA envC nxt req c resp of
         ((resp', herr), c') \<Rightarrow>
           rs_status resp' = 200 \<and> rs_body resp' = d_Body d
           \<and> (d_ContentType d \<noteq> [] \<longrightarrow>
                rs_headers resp' ''Content-Type'' = Some (d_ContentType d))
           \<and> herr = None \<and> c' = c1))
   \<and> (initialized s \<and> well_formed L request \<and> acquire_ok env
      \<and> record_of L c request = Some r
      \<and> i_request_hash r = TrimSpace L (rq_RequestHash request)
      \<and> i_status r = ''completed''
      \<and> (i_response_status r = None \<or> (\<exists>v. i_response_status r = Some v \<and> v \<le> 0)) \<longrightarrow>
      (case Acquire L env s c request of
         (res, c') \<Rightarrow>
           (\<exists>d. res = Inr d \<and> d_Type d = DecisionReplay \<and> d_StatusCode d \<le> 0
              \<and> d_Body d = (case i_response_body r of Some b \<Rightarrow> b | None \<Rightarrow> [])
              \<and> d_ContentType d =
                  (case i_response_content_type r of Some t \<Rightarrow> t | None \<Rightarrow> []))
           \<and> stored c' = stored c))"
proof (intro conjI impI)
  assume "initialized s \<and> admitted L req uid
      \<and> Acquire L envA s c (middleware_request L req uid) = (Inr d, c1)
      \<and> d_Type d = DecisionReplay \<and> d_StatusCode d \<le> 0"
  then have f: "initialized s" "admitted L req uid"
      "Acquire L envA s c (middleware_request L req uid) = (Inr d, c1)"
      "d_Type d = DecisionReplay" "d_StatusCode d \<le> 0"
    by simp_all
  show "case NewHTTPWithdrawIdempotencyMiddleware L s envA envC nxt req c resp of
         ((resp', herr), c') \<Rightarrow>
           rs_status resp' = 200 \<and> rs_body resp' = d_Body d
           \<and> (d_ContentType d \<noteq> [] \<longrightarrow>
                rs_headers resp' ''Content-Type'' = Some (d_ContentType d))
           \<and> herr = None \<and> c' = c1"
    unfolding middleware_replay [OF f(1) f(2) f(3) f(4)]
    using f(5) by (simp add: response_defs)
next
  assume "initialized s \<and> well_formed L request \<and> acquire_ok env
      \<and> record_of L c request = Some r
      \<and> i_request_hash r = TrimSpace L (rq_RequestHash request)
      \<and> i_status r = ''completed''
      \<and> (i_response_status r = None \<or> (\<exists>v. i_response_status r = Some v \<and> v \<le> 0))"
  then have f: "initialized s" "well_formed L request" "acquire_ok env"
      "record_of L c request = Some r"
      "i_request_hash r = TrimSpace L (rq_RequestHash request)"
      "i_status r = ''completed''"
      "i_response_status r = None \<or> (\<exists>v. i_response_status r = Some v \<and> v \<le> 0)"
    by simp_all
  show "case Acquire L env s c request of
         (res, c') \<Rightarrow>
           (\<exists>d. res = Inr d \<and> d_Type d = DecisionReplay \<and> d_StatusCode d \<le> 0
              \<and> d_Body d = (case i_response_body r of Some b \<Rightarrow> b | None \<Rightarrow> [])
              \<and> d_ContentType d =
                  (case i_response_content_type r of Some t \<Rightarrow> t | None \<Rightarrow> []))
           \<and> stored c' = stored c"
    unfolding acquire_replay [OF f(1) f(2) f(3) f(4) f(5) f(6)]
    using f(7) by auto
qed


theorem C10_witness:
  "rs_status (fst (fst (NewHTTPWithdrawIdempotencyMiddleware example_lib example_store
        (idem_ok 5) (idem_ok 6) (Handle example_lib (pg_ok 5) example_request) example_request
        (route_conn_with null_status_row) fresh_response))) = 200
   \<and> rs_body (fst (fst (NewHTTPWithdrawIdempotencyMiddleware example_lib example_store
        (idem_ok 5) (idem_ok 6) (Handle example_lib (pg_ok 5) example_request) example_request
        (route_conn_with null_status_row) fresh_response))) = ''stored body''
   \<and> rs_headers (fst (fst (NewHTTPWithdrawIdempotencyMiddleware example_lib example_store
        (idem_ok 5) (idem_ok 6) (Handle example_lib (pg_ok 5) example_request) example_request
        (route_conn_with null_status_row) fresh_response))) ''Content-Type''
       = Some ''application/json''"
proof -
  let ?rq = "middleware_request example_lib example_request seed_user"
  let ?c = "route_conn_with null_status_row"
  have wf: "well_formed example_lib ?rq"
    using example_admitted by (simp add: admitted_def)
  have row: "i_request_hash null_status_row = TrimSpace example_lib (rq_RequestHash ?rq)"
      "i_status null_status_row = ''completed''" "i_response_status null_status_row = None"
      "i_response_body null_status_row = Some ''stored body''"
      "i_response_content_type null_status_row = Some ''application/json''"
    by (simp_all add: null_status_row_def)
  obtain res c1 where rc: "Acquire example_lib (idem_ok 5) example_store ?c ?rq = (res, c1)"
    by (cases "Acquire example_lib (idem_ok 5) example_store ?c ?rq")
  from C10_replay_status_defaults_to_200 [where L = example_lib and s = example_store
      and env = "idem_ok 5" and request = ?rq and c = ?c and r = null_status_row,
      THEN conjunct2]
    example_store_initialized wf idem_ok_acquire example_route_record row
  obtain d where d: "res = Inr d" "d_Type d = DecisionReplay" "d_StatusCode d \<le> 0"
      "d_Body d = ''stored body''" "d_ContentType d = ''application/json''"
    unfolding rc by auto
  from C10_replay_status_defaults_to_200 [where L = example_lib and s = example_store
      and envA = "idem_ok 5" and envC = "idem_ok 6" and req = example_request and uid = seed_user
      and c = ?c and d = d and ?c1.0 = c1 and resp = fresh_response
      and nxt = "Handle example_lib (pg_ok 5) example_request",
      THEN conjunct1]
    example_store_initialized example_admitted rc d
  show ?thesis
    by (auto split: prod.splits)
qed

section \<open>Facts about the withdraw handler\<close>

lemma WithdrawBalance_cases:
  assumes "WithdrawBalance L env c u a ch = (res, c')"
  shows "(\<exists>e. res = Inl e \<and> stored c' = stored c)
       \<or> (\<exists>ww entry. res = Inr ww
             \<and> withdraw_idempotency (stored c') = withdraw_idempotency (stored c)
             \<and> wallet_ledger (stored c') = wallet_ledger (stored c) @ [entry]
             \<and> l_entry_type entry = ''withdrawal'' \<and> l_amount_minor entry = - a)"
proof (cases "TrimSpace L u = [] \<or> a \<le> 0")
  case True
  with assms show ?thesis by (auto simp: WithdrawBalance_def split: if_splits)
next
  case False
  obtain rr cr where rr: "WithdrawWalletBalanceByUserID L env c u a ch = (rr, cr)"
    by (cases "WithdrawWalletBalanceByUserID L env c u a ch")
  show ?thesis
  proof (cases rr)
    case (Inl e)
    with withdraw_error_rolls_back [of L env c u a ch e] rr have "stored cr = stored c" by simp
    with assms False rr Inl show ?thesis by (auto simp: WithdrawBalance_def)
  next
    case (Inr b)
    with rr have "WithdrawWalletBalanceByUserID L env c u a ch = (Inr b, cr)" by simp
    from withdraw_success [OF this] obtain entry where
      "withdraw_idempotency (stored cr) = withdraw_idempotency (stored c)"
      "wallet_ledger (stored cr) = wallet_ledger (stored c) @ [entry]"
      "l_entry_type entry = ''withdrawal''" "l_amount_minor entry = - a"
      by auto
    with assms False rr Inr show ?thesis by (auto simp: WithdrawBalance_def)
  qed
qed

lemma Handle_cases:
  assumes "Handle L env req c resp = (hr, c')"
  shows "\<exists>code m. hr = (JSON L m (Status code resp), None) \<and> 0 < code
       \<and> ((code \<noteq> 200 \<and> stored c' = stored c)
          \<or> (code = 200
              \<and> withdraw_idempotency (stored c') = withdraw_idempotency (stored c)
              \<and> (\<exists>entry amount. Bind_JSON L (rq_body req) = Some amount
                    \<and> wallet_ledger (stored c') = wallet_ledger (stored c) @ [entry]
                    \<and> l_entry_type entry = ''withdrawal''
                    \<and> l_amount_minor entry = - amount)))"
proof (cases "rq_user_id req")
  case None
  with assms show ?thesis by (auto simp: Handle_def)
next
  case (Some userID)
  show ?thesis
  proof (cases "userID = []")
    case True
    with assms Some show ?thesis by (auto simp: Handle_def)
  next
    case ne: False
    show ?thesis
    proof (cases "Bind_JSON L (rq_body req)")
      case None
      with assms Some ne show ?thesis by (auto simp: Handle_def)
    next
      case (Some amount)
      obtain res cw where w: "WithdrawBalance L env c userID amount (rq_request_id req) = (res, cw)"
        by (cases "WithdrawBalance L env c userID amount (rq_request_id req)")
      from WithdrawBalance_cases [OF w] show ?thesis
      proof (elim disjE exE conjE)
        fix e assume "res = Inl e" "stored cw = stored c"
        with assms \<open>rq_user_id req = Some userID\<close> ne Some w show ?thesis
          by (auto simp: Handle_def Let_def split: if_splits)
      next
        fix ww entry
        assume "res = Inr ww"
          "withdraw_idempotency (stored cw) = withdraw_idempotency (stored c)"
          "wallet_ledger (stored cw) = wallet_ledger (stored c) @ [entry]"
          "l_entry_type entry = ''withdrawal''" "l_amount_minor entry = - amount"
        with assms \<open>rq_user_id req = Some userID\<close> ne Some w show ?thesis
          by (auto simp: Handle_def Let_def)
      qed
    qed
  qed
qed


section \<open>Two submissions of one request\<close>

lemma route_twice:
  assumes init: "initialized s" and adm: "admitted L req uid"
    and absent: "record_of L c0 (middleware_request L req uid) = None"
    and okA1: "acquire_ok envA1" and okC1: "complete_ok envC1" and okA2: "acquire_ok envA2"
    and ct: "TrimSpace L (json_ctype L) = json_ctype L" "json_ctype L \<noteq> []"
    and run1: "withdraw_route L s envA1 envW1 envC1 req c0 resp1 = ((r1, e1), c1)"
    and run2: "withdraw_route L s envA2 envW2 envC2 req c1 resp2 = ((r2, e2), c2)"
  shows "e1 = None \<and> e2 = None
     \<and> rs_status r2 = rs_status r1 \<and> rs_body r2 = rs_body r1
     \<and> rs_headers r2 ''Content-Type'' = rs_headers r1 ''Content-Type''
     \<and> stored c2 = stored c1
     \<and> (rs_status r1 = 200 \<longrightarrow>
          (\<exists>entry amount. Bind_JSON L (rq_body req) = Some amount
             \<and> wallet_ledger (stored c2) = wallet_ledger (stored c0) @ [entry]
             \<and> l_entry_type entry = ''withdrawal'' \<and> l_amount_minor entry = - amount))
     \<and> (rs_status r1 \<noteq> 200 \<longrightarrow> wallet_ledger (stored c2) = wallet_ledger (stored c0))"
proof -
  let ?rq = "middleware_request L req uid"
  let ?k = "(TrimSpace L (rq_Scope ?rq), TrimSpace L (rq_Key ?rq))"
  have wf: "well_formed L ?rq" using adm by (simp add: admitted_def)
  define rowA where "rowA =
    \<lparr>i_id = ie_pg_uuid envA1, i_request_hash = TrimSpace L (rq_RequestHash ?rq),
     i_status = ''in_progress'', i_response_status = None,
     i_response_body = None, i_response_content_type = None,
     i_locked_until = ie_now envA1 + effective_ttl ?rq,
     i_created_at = ie_pg_now envA1, i_updated_at = ie_pg_now envA1,
     i_completed_at = None\<rparr>"
  define cA where "cA =
    c0\<lparr>stored := (stored c0)\<lparr>withdraw_idempotency := (withdraw_idempotency (stored c0))(?k \<mapsto> rowA)\<rparr>,
       stmts := stmts c0 @ [BEGIN, SELECT_idempotency_FOR_UPDATE, INSERT_idempotency, COMMIT]\<rparr>"
  have acq1: "Acquire L envA1 s c0 ?rq = (Inr (empty_Decision\<lparr>d_Type := DecisionAcquired\<rparr>), cA)"
    unfolding cA_def rowA_def by (rule acquire_absent [OF init wf okA1 absent])
  have ledgerA: "wallet_ledger (stored cA) = wallet_ledger (stored c0)"
    by (simp add: cA_def)
  obtain hr cH where h: "Handle L envW1 req cA resp1 = (hr, cH)"
    by (cases "Handle L envW1 req cA resp1")
  from Handle_cases [OF h] obtain code m where
    hr: "hr = (JSON L m (Status code resp1), None)" and pos: "0 < code"
    and eff: "(code \<noteq> 200 \<and> stored cH = stored cA)
          \<or> (code = 200
              \<and> withdraw_idempotency (stored cH) = withdraw_idempotency (stored cA)
              \<and> (\<exists>entry amount. Bind_JSON L (rq_body req) = Some amount
                    \<and> wallet_ledger (stored cH) = wallet_ledger (stored cA) @ [entry]
                    \<and> l_entry_type entry = ''withdrawal''
                    \<and> l_amount_minor entry = - amount))"
    by blast
  let ?r1 = "JSON L m (Status code resp1)"
  have st1: "rs_status ?r1 = code" and ct1: "ContentType L ?r1 = json_ctype L"
    and hd1: "rs_headers ?r1 ''Content-Type'' = Some (json_ctype L)"
    by (simp_all add: response_defs ContentType_def)
  have idemH: "withdraw_idempotency (stored cH) = withdraw_idempotency (stored cA)"
    using eff by auto
  have recH: "record_of L cH ?rq = Some rowA"
    by (simp add: record_of_def idemH cA_def)
  have hashA: "i_request_hash rowA = TrimSpace L (rq_RequestHash ?rq)"
    by (simp add: rowA_def)
  define rowC where "rowC =
    rowA\<lparr>i_status := ''completed'', i_response_status := Some code,
         i_response_body := Some (rs_body ?r1),
         i_response_content_type := Some (json_ctype L),
         i_locked_until := ie_pg_now envC1, i_completed_at := Some (ie_pg_now envC1),
         i_updated_at := ie_pg_now envC1\<rparr>"
  define cC where "cC =
    cH\<lparr>stored := (stored cH)\<lparr>withdraw_idempotency := (withdraw_idempotency (stored cH))(?k \<mapsto> rowC)\<rparr>,
       stmts := stmts cH @ [UPDATE_idempotency_complete]\<rparr>"
  have comp: "Complete L envC1 s cH ?rq
      \<lparr>sr_StatusCode = rs_status ?r1, sr_Body = rs_body ?r1, sr_ContentType = ContentType L ?r1\<rparr>
      = (None, cC)"
    using complete_matching [OF init wf okC1 recH hashA,
        of "\<lparr>sr_StatusCode = rs_status ?r1, sr_Body = rs_body ?r1, sr_ContentType = ContentType L ?r1\<rparr>"]
    by (simp add: cC_def rowC_def st1 ct1 ct)
  have "NewHTTPWithdrawIdempotencyMiddleware L s envA1 envC1 (Handle L envW1 req) req c0 resp1
          = ((?r1, None), cC)"
    by (rule middleware_acquired [OF init adm acq1 _ _ comp]) (simp_all add: empty_Decision_def h hr)
  with run1 have first: "r1 = ?r1" "e1 = None" "c1 = cC"
    by (simp_all add: withdraw_route_def)
  have ledgerC: "wallet_ledger (stored cC) = wallet_ledger (stored cH)"
    by (simp add: cC_def)
  have recC: "record_of L cC ?rq = Some rowC"
    by (simp add: record_of_def cC_def)
  have rowC_facts: "i_request_hash rowC = TrimSpace L (rq_RequestHash ?rq)"
      "i_status rowC = ''completed''"
    by (simp_all add: rowC_def rowA_def)
  have acq2: "Acquire L envA2 s cC ?rq =
      (Inr \<lparr>d_Type = DecisionReplay, d_StatusCode = code, d_Body = rs_body ?r1,
             d_ContentType = json_ctype L\<rparr>,
       cC\<lparr>stmts := stmts cC @ [BEGIN, SELECT_idempotency_FOR_UPDATE, COMMIT]\<rparr>)"
    using acquire_replay [OF init wf okA2 recC rowC_facts] by (simp add: rowC_def)
  have "NewHTTPWithdrawIdempotencyMiddleware L s envA2 envC2 (Handle L envW2 req) req cC resp2
          = ((Send (rs_body ?r1) (Status code (Set_header ''Content-Type'' (json_ctype L) resp2)),
              None),
             cC\<lparr>stmts := stmts cC @ [BEGIN, SELECT_idempotency_FOR_UPDATE, COMMIT]\<rparr>)"
    using middleware_replay [OF init adm acq2, of envC2 "Handle L envW2 req" resp2] pos ct(2)
    by simp
  with run2 first have second:
      "r2 = Send (rs_body ?r1) (Status code (Set_header ''Content-Type'' (json_ctype L) resp2))"
      "e2 = None" "c2 = cC\<lparr>stmts := stmts cC @ [BEGIN, SELECT_idempotency_FOR_UPDATE, COMMIT]\<rparr>"
    by (simp_all add: withdraw_route_def)
  have same: "rs_status r2 = rs_status r1" "rs_body r2 = rs_body r1"
      "rs_headers r2 ''Content-Type'' = rs_headers r1 ''Content-Type''" "stored c2 = stored c1"
    using first second by (simp_all add: response_defs)
  have led: "wallet_ledger (stored c2) = wallet_ledger (stored cH)"
    using second ledgerC by simp
  have ok200: "\<exists>entry amount. Bind_JSON L (rq_body req) = Some amount
             \<and> wallet_ledger (stored c2) = wallet_ledger (stored c0) @ [entry]
             \<and> l_entry_type entry = ''withdrawal'' \<and> l_amount_minor entry = - amount"
    if "rs_status r1 = 200"
  proof -
    from that first st1 have "code = 200" by simp
    with eff ledgerA led show ?thesis by auto
  qed
  have other: "wallet_ledger (stored c2) = wallet_ledger (stored c0)" if "rs_status r1 \<noteq> 200"
  proof -
    from that first st1 have "code \<noteq> 200" by simp
    with eff ledgerA led show ?thesis by auto
  qed
  from first(2) second(2) same ok200 other show ?thesis by blast
qed


text \<open>
  Claim C3. (1) When the store is initialized, the request is well formed, no statement
  of \<open>Acquire\<close> fails, and the row found for (scope, key) has the supplied (trimmed) hash,
  status \<open>completed\<close> and a stored status code, body and content type, \<open>Acquire\<close> returns
  the Replay decision carrying exactly these three, and the database is unchanged.
  (2) In the middleware that row is answered from the store, whatever the next handler
  is: the handler is not run and the database is unchanged. (3) When a request admitted
  by the middleware, with no row yet for its (scope, key), is submitted to the withdraw
  route twice in sequence, no statement of the stores failing: the second response has
  the status, body and content type of the first, the second submission leaves the
  database as the first left it, and the ledger holds exactly one more entry than before
  the first submission when the first response is 200 (a withdrawal of the requested
  amount), and no more entry than before otherwise.
\<close>

theorem C3_replay_law:
  "(initialized s \<and> well_formed L request \<and> acquire_ok env
      \<and> record_of L c request = Some r
      \<and> i_request_hash r = TrimSpace L (rq_RequestHash request)
      \<and> i_status r = ''completed''
      \<and> i_response_status r = Some code \<and> i_response_body r = Some body
      \<and> i_response_content_type r = Some ctype \<longrightarrow>
      Acquire L env s c request =
        (Inr \<lparr>d_Type = DecisionReplay, d_StatusCode = code, d_Body = body,
               d_ContentType = ctype\<rparr>,
         c\<lparr>stmts := stmts c @ [BEGIN, SELECT_idempotency_FOR_UPDATE, COMMIT]\<rparr>))
   \<and> (initialized s \<and> admitted L req uid \<and> acquire_ok env
      \<and> record_of L c (middleware_request L req uid) = Some r
      \<and> i_request_hash r = TrimSpace L (rq_RequestHash (middleware_request L req uid))
      \<and> i_status r = ''completed''
      \<and> i_response_status r = Some code \<and> i_response_body r = Some body
      \<and> i_response_content_type r = Some ctype \<and> 0 < code \<and> ctype \<noteq> [] \<longrightarrow>
      NewHTTPWithdrawIdempotencyMiddleware L s env envC nxt req c resp =
        ((Send body (Status code (Set_header ''Content-Type'' ctype resp)), None),
         c\<lparr>stmts := stmts c @ [BEGIN, SELECT_idempotency_FOR_UPDATE, COMMIT]\<rparr>))
   \<and> (initialized s \<and> admitted L req uid
      \<and> record_of L c0 (middleware_request L req uid) = None
      \<and> acquire_ok envA1 \<and> complete_ok envC1 \<and> acquire_ok envA2
      \<and> TrimSpace L (json_ctype L) = json_ctype L \<and> json_ctype L \<noteq> [] \<longrightarrow>
      (case withdraw_route L s envA1 envW1 envC1 req c0 resp1 of
         ((r1, e1), c1) \<Rightarrow>
           (case withdraw_route L s envA2 envW2 envC2 req c1 resp2 of
              ((r2, e2), c2) \<Rightarrow>
                e1 = None \<and> e2 = None
                \<and> rs_status r2 = rs_status r1 \<and> rs_body r2 = rs_body r1
                \<and> rs_headers r2 ''Content-Type'' = rs_headers r1 ''Content-Type''
                \<and> stored c2 = stored c1
                \<and> (rs_status r1 = 200 \<longrightarrow>
                     (\<exists>entry amount. Bind_JSON L (rq_body req) = Some amount
                        \<and> wallet_ledger (stored c2) = wallet_ledger (stored c0) @ [entry]
                        \<and> l_entry_type entry = ''withdrawal''
                        \<and> l_amount_minor entry = - amount))
                \<and> (rs_status r1 \<noteq> 200 \<longrightarrow>
                     wallet_ledger (stored c2) = wallet_ledger (stored c0)))))"
proof (intro conjI impI)
  assume "initialized s \<and> well_formed L request \<and> acquire_ok env
      \<and> record_of L c request = Some r
      \<and> i_request_hash r = TrimSpace L (rq_RequestHash request)
      \<and> i_status r = ''completed''
      \<and> i_response_status r = Some code \<and> i_response_body r = Some body
      \<and> i_response_content_type r = Some ctype"
  then have f: "initialized s" "well_formed L request" "acquire_ok env"
      "record_of L c request = Some r"
      "i_request_hash r = TrimSpace L (rq_RequestHash request)" "i_status r = ''completed''"
      and v: "i_response_status r = Some code" "i_response_body r = Some body"
      "i_response_content_type r = Some ctype"
    by simp_all
  from acquire_replay [OF f] v
  show "Acquire L env s c request =
        (Inr \<lparr>d_Type = DecisionReplay, d_StatusCode = code, d_Body = body,
               d_ContentType = ctype\<rparr>,
         c\<lparr>stmts := stmts c @ [BEGIN, SELECT_idempotency_FOR_UPDATE, COMMIT]\<rparr>)"
    by simp
next
  assume "initialized s \<and> admitted L req uid \<and> acquire_ok env
      \<and> record_of L c (middleware_request L req uid) = Some r
      \<and> i_request_hash r = TrimSpace L (rq_RequestHash (middleware_request L req uid))
      \<and> i_status r = ''completed''
      \<and> i_response_status r = Some code \<and> i_response_body r = Some body
      \<and> i_response_content_type r = Some ctype \<and> 0 < code \<and> ctype \<noteq> []"
  then have f: "initialized s" "admitted L req uid" "acquire_ok env"
      "record_of L c (middleware_request L req uid) = Some r"
      "i_request_hash r = TrimSpace L (rq_RequestHash (middleware_request L req uid))"
      "i_status r = ''completed''"
      and v: "i_response_status r = Some code" "i_response_body r = Some body"
      "i_response_content_type r = Some ctype" "0 < code" "ctype \<noteq> []"
    by simp_all
  from f(2) have wf: "well_formed L (middleware_request L req uid)"
    by (simp add: admitted_def)
  from acquire_replay [OF f(1) wf f(3) f(4) f(5) f(6)] v
  have acq: "Acquire L env s c (middleware_request L req uid) =
        (Inr \<lparr>d_Type = DecisionReplay, d_StatusCode = code, d_Body = body,
               d_ContentType = ctype\<rparr>,
         c\<lparr>stmts := stmts c @ [BEGIN, SELECT_idempotency_FOR_UPDATE, COMMIT]\<rparr>)"
    by simp
  from middleware_replay [OF f(1) f(2) acq, of envC nxt resp] v(4) v(5)
  show "NewHTTPWithdrawIdempotencyMiddleware L s env envC nxt req c resp =
        ((Send body (Status code (Set_header ''Content-Type'' ctype resp)), None),
         c\<lparr>stmts := stmts c @ [BEGIN, SELECT_idempotency_FOR_UPDATE, COMMIT]\<rparr>)"
    by simp
next
  assume "initialized s \<and> admitted L req uid
      \<and> record_of L c0 (middleware_request L req uid) = None
      \<and> acquire_ok envA1 \<and> complete_ok envC1 \<and> acquire_ok envA2
      \<and> TrimSpace L (json_ctype L) = json_ctype L \<and> json_ctype L \<noteq> []"
  then have f: "initialized s" "admitted L req uid"
      "record_of L c0 (middleware_request L req uid) = None"
      "acquire_ok envA1" "complete_ok envC1" "acquire_ok envA2"
      "TrimSpace L (json_ctype L) = json_ctype L" "json_ctype L \<noteq> []"
    by simp_all
  obtain r1 e1 c1 where run1: "withdraw_route L s envA1 envW1 envC1 req c0 resp1 = ((r1, e1), c1)"
    by (metis surj_pair)
  obtain r2 e2 c2 where run2: "withdraw_route L s envA2 envW2 envC2 req c1 resp2 = ((r2, e2), c2)"
    by (metis surj_pair)
  note tw = route_twice [OF f run1 run2]
  show "case withdraw_route L s envA1 envW1 envC1 req c0 resp1 of
         ((r1, e1), c1) \<Rightarrow>
           (case withdraw_route L s envA2 envW2 envC2 req c1 resp2 of
              ((r2, e2), c2) \<Rightarrow>
                e1 = None \<and> e2 = None
                \<and> rs_status r2 = rs_status r1 \<and> rs_body r2 = rs_body r1
                \<and> rs_headers r2 ''Content-Type'' = rs_headers r1 ''Content-Type''
                \<and> stored c2 = stored c1
                \<and> (rs_status r1 = 200 \<longrightarrow>
                     (\<exists>entry amount. Bind_JSON L (rq_body req) = Some amount
                        \<and> wallet_ledger (stored c2) = wallet_ledger (stored c0) @ [entry]
                        \<and> l_entry_type entry = ''withdrawal''
                        \<and> l_amount_minor entry = - amount))
                \<and> (rs_status r1 \<noteq> 200 \<longrightarrow>
                     wallet_ledger (stored c2) = wallet_ledger (stored c0)))"
    unfolding run1 prod.case run2 by (rule tw)
qed

lemma example_ctype:
  "TrimSpace example_lib (json_ctype example_lib) = json_ctype example_lib"
  "json_ctype example_lib \<noteq> []"
  by (simp_all add: example_lib_def ascii_trim_def ascii_space_def)

lemma example_absent:
  "record_of example_lib seed_conn (middleware_request example_lib example_request seed_user) = None"
  by (simp add: record_of_def seed_conn_def)

lemma example_first_run:
  "\<exists>r c. withdraw_route example_lib example_store (idem_ok 10) (pg_ok 10) (idem_ok 11)
            example_request seed_conn fresh_response = ((r, None), c)
         \<and> rs_status r = 200"
proof -
  let ?rq = "middleware_request example_lib example_request seed_user"
  let ?k = "(TrimSpace example_lib (rq_Scope ?rq), TrimSpace example_lib (rq_Key ?rq))"
  have wf: "well_formed example_lib ?rq"
    using example_admitted by (simp add: admitted_def)
  define rowA where "rowA =
    \<lparr>i_id = ie_pg_uuid (idem_ok 10), i_request_hash = TrimSpace example_lib (rq_RequestHash ?rq),
     i_status = ''in_progress'', i_response_status = None,
     i_response_body = None, i_response_content_type = None,
     i_locked_until = ie_now (idem_ok 10) + effective_ttl ?rq,
     i_created_at = ie_pg_now (idem_ok 10), i_updated_at = ie_pg_now (idem_ok 10),
     i_completed_at = None\<rparr>"
  define cA where "cA =
    seed_conn\<lparr>stored := (stored seed_conn)\<lparr>withdraw_idempotency :=
                 (withdraw_idempotency (stored seed_conn))(?k \<mapsto> rowA)\<rparr>,
       stmts := stmts seed_conn @ [BEGIN, SELECT_idempotency_FOR_UPDATE, INSERT_idempotency, COMMIT]\<rparr>"
  have acq: "Acquire example_lib (idem_ok 10) example_store seed_conn ?rq
      = (Inr (empty_Decision\<lparr>d_Type := DecisionAcquired\<rparr>), cA)"
    unfolding cA_def rowA_def
    by (rule acquire_absent [OF example_store_initialized wf idem_ok_acquire example_absent])
  have t: "TrimSpace example_lib seed_user \<noteq> []"
    by (simp add: example_lib_def ascii_trim_def seed_user_def ascii_space_def)
  have b: "Bind_JSON example_lib (rq_body example_request) = Some 100"
    by (simp add: example_lib_def bind_amount_def example_request_def)
  have u: "rq_user_id example_request = Some seed_user" "seed_user \<noteq> []"
    by (simp_all add: example_request_def seed_user_def)
  have w: "wallets (stored cA) seed_user = Some seed_wallet"
    by (simp add: cA_def seed_conn_def)
  obtain hr cH where h: "Handle example_lib (pg_ok 10) example_request cA fresh_response = (hr, cH)"
    by (cases "Handle example_lib (pg_ok 10) example_request cA fresh_response")
  have hs: "snd hr = None \<and> rs_status (fst hr) = 200"
    using h t b u w seed_parse
    by (auto simp: Handle_def WithdrawBalance_def repo_defs response_defs pg_ok_def seed_wallet_def
          bigint_ok_def split: if_splits)
  obtain r where hr: "hr = (r, None)" and st: "rs_status r = 200"
    using hs by (cases hr) auto
  from Handle_cases [OF h] have idem: "withdraw_idempotency (stored cH) = withdraw_idempotency (stored cA)"
    by auto
  have rec: "record_of example_lib cH ?rq = Some rowA"
    by (simp add: record_of_def idem cA_def)
  have hash: "i_request_hash rowA = TrimSpace example_lib (rq_RequestHash ?rq)"
    by (simp add: rowA_def)
  obtain c3 where comp: "Complete example_lib (idem_ok 11) example_store cH ?rq
      \<lparr>sr_StatusCode = rs_status r, sr_Body = rs_body r, sr_ContentType = ContentType example_lib r\<rparr>
      = (None, c3)"
    using complete_matching [OF example_store_initialized wf idem_ok_complete rec hash] by blast
  have "NewHTTPWithdrawIdempotencyMiddleware example_lib example_store (idem_ok 10) (idem_ok 11)
          (Handle example_lib (pg_ok 10) example_request) example_request seed_conn fresh_response
          = ((r, None), c3)"
    by (rule middleware_acquired [OF example_store_initialized example_admitted acq _ _ comp])
       (simp_all add: empty_Decision_def h hr)
  with st show ?thesis by (auto simp: withdraw_route_def)
qed

theorem C3_witness:
  "rs_status (fst (fst (withdraw_route example_lib example_store (idem_ok 20) (pg_ok 20) (idem_ok 21)
       example_request
       (snd (withdraw_route example_lib example_store (idem_ok 10) (pg_ok 10) (idem_ok 11)
               example_request seed_conn fresh_response))
       fresh_response))) = 200
   \<and> rs_body (fst (fst (withdraw_route example_lib example_store (idem_ok 20) (pg_ok 20) (idem_ok 21)
       example_request
       (snd (withdraw_route example_lib example_store (idem_ok 10) (pg_ok 10) (idem_ok 11)
               example_request seed_conn fresh_response))
       fresh_response)))
     = rs_body (fst (fst (withdraw_route example_lib example_store (idem_ok 10) (pg_ok 10)
         (idem_ok 11) example_request seed_conn fresh_response)))
   \<and> length (wallet_ledger (stored (snd (withdraw_route example_lib example_store (idem_ok 20)
       (pg_ok 20) (idem_ok 21) example_request
       (snd (withdraw_route example_lib example_store (idem_ok 10) (pg_ok 10) (idem_ok 11)
               example_request seed_conn fresh_response))
       fresh_response)))) = 1"
proof -
  from example_first_run obtain r1 c1 where run1:
    "withdraw_route example_lib example_store (idem_ok 10) (pg_ok 10) (idem_ok 11)
       example_request seed_conn fresh_response = ((r1, None), c1)" and st: "rs_status r1 = 200"
    by blast
  obtain r2 e2 c2 where run2:
    "withdraw_route example_lib example_store (idem_ok 20) (pg_ok 20) (idem_ok 21)
       example_request c1 fresh_response = ((r2, e2), c2)"
    by (metis surj_pair)
  from C3_replay_law [where L = example_lib and s = example_store and req = example_request
      and uid = seed_user and ?c0.0 = seed_conn and ?envA1.0 = "idem_ok 10"
      and ?envW1.0 = "pg_ok 10" and ?envC1.0 = "idem_ok 11" and ?envA2.0 = "idem_ok 20"
      and ?envW2.0 = "pg_ok 20" and ?envC2.0 = "idem_ok 21" and ?resp1.0 = fresh_response
      and ?resp2.0 = fresh_response,
      THEN conjunct2, THEN conjunct2]
    example_store_initialized example_admitted example_absent idem_ok_acquire idem_ok_complete
    example_ctype
  have "rs_status r2 = rs_status r1 \<and> rs_body r2 = rs_body r1
      \<and> (rs_status r1 = 200 \<longrightarrow>
            (\<exists>entry. wallet_ledger (stored c2) = wallet_ledger (stored seed_conn) @ [entry]))"
    unfolding run1 prod.case run2 by auto
  with st have "rs_status r2 = 200 \<and> rs_body r2 = rs_body r1
      \<and> length (wallet_ledger (stored c2)) = 1"
    by (auto simp: seed_conn_def)
  then show ?thesis
    unfolding run1 fst_conv snd_conv run2 by simp
qed

section \<open>Facts about the fixed window\<close>

lemmas redis_defs = redis_live_def redis_INCR_def redis_PEXPIRE_def redis_PTTL_def

lemma lua_number_exact:
  assumes "\<bar>x\<bar> \<le> 2 ^ 53"
  shows "lua_number x = x"
proof -
  from assms have "nat \<bar>x\<bar> \<le> 2 ^ 53" by (simp add: nat_le_iff)
  then show ?thesis by (simp add: lua_number_def Let_def)
qed

lemma Milliseconds_exact:
  assumes "0 < Milliseconds d" "d < 2 ^ 63"
  shows "Milliseconds d \<le> 2 ^ 53"
proof -
  from assms(1) have "0 \<le> d" by (simp add: Milliseconds_def quot_def split: if_splits)
  with assms(2) have "d div 1000000 \<le> 9223372036854775808 div 1000000"
    by (intro zdiv_mono1) simp_all
  with \<open>0 \<le> d\<close> show ?thesis by (simp add: Milliseconds_def quot_def)
qed

lemma fixedWindow_first:
  assumes "redis_live (rd_now env) db k = None" "\<not> rd_eval_err env"
    "0 < Milliseconds (cfg_Window cfg)" "Milliseconds (cfg_Window cfg) \<le> 2 ^ 53"
    "0 < cfg_Limit cfg" "cfg_Limit cfg < 2 ^ 53"
  shows "fixedWindow env db k cfg =
    (Inr \<lparr>res_Allowed = True, res_Limit = cfg_Limit cfg,
           res_Remaining = cfg_Limit cfg - 1,
           res_ResetAt = rd_app_now env + Milliseconds (cfg_Window cfg) * Millisecond,
           res_RetryAfter = 0\<rparr>,
     db(k \<mapsto> \<lparr>re_value = Counter 1,
                re_expire_at = Some (rd_now env + Milliseconds (cfg_Window cfg))\<rparr>))"
proof -
  have n: "lua_number (cfg_Limit cfg) = cfg_Limit cfg"
      "lua_number (Milliseconds (cfg_Window cfg)) = Milliseconds (cfg_Window cfg)"
      "lua_number 1 = 1" "lua_number (cfg_Limit cfg - 1) = cfg_Limit cfg - 1"
    using assms by (simp_all add: lua_number_exact)
  show ?thesis
    using assms(1-3) assms(5) n
    by (simp add: fixedWindow_def fixedWindow_script_def redis_INCR_def redis_PEXPIRE_def
          redis_PTTL_def redis_live_def Let_def)
qed

lemma fixedWindow_next:
  assumes "db k = Some \<lparr>re_value = Counter v, re_expire_at = Some e\<rparr>" "rd_now env \<le> e"
    "e - rd_now env \<le> 2 ^ 53" "1 \<le> v" "v < 2 ^ 53" "\<not> rd_eval_err env"
    "0 < cfg_Limit cfg" "cfg_Limit cfg < 2 ^ 53"
  shows "fixedWindow env db k cfg =
    (Inr \<lparr>res_Allowed = (v + 1 \<le> cfg_Limit cfg), res_Limit = cfg_Limit cfg,
           res_Remaining = (if v + 1 \<le> cfg_Limit cfg then cfg_Limit cfg - (v + 1) else 0),
           res_ResetAt = rd_app_now env + (e - rd_now env) * Millisecond,
           res_RetryAfter = (if v + 1 \<le> cfg_Limit cfg then 0
                             else (e - rd_now env) * Millisecond)\<rparr>,
     db(k \<mapsto> \<lparr>re_value = Counter (v + 1), re_expire_at = Some e\<rparr>))"
proof -
  have n: "lua_number (cfg_Limit cfg) = cfg_Limit cfg" "lua_number (v + 1) = v + 1"
      "lua_number (e - rd_now env) = e - rd_now env"
      "v + 1 \<le> cfg_Limit cfg \<Longrightarrow> lua_number (cfg_Limit cfg - (v + 1)) = cfg_Limit cfg - (v + 1)"
    using assms by (simp_all add: lua_number_exact)
  have big: "\<not> 2 ^ 63 \<le> v + 1" using assms(5) by simp
  show ?thesis
    using assms(1,2,4,6) n big
    by (simp add: fixedWindow_def fixedWindow_script_def redis_INCR_def redis_PEXPIRE_def
          redis_PTTL_def redis_live_def Let_def)
qed

lemma AllowKey_fixed:
  assumes "connected (lm_store l)" "cfg_Algorithm (lm_config l) = AlgorithmFixedWindow"
    "fixedWindow env db (full_key (lm_store l) key) (lm_config l) = (Inr res, db')"
  shows "AllowKey tb sw env l db key = (Inr res, db')"
  using assms
  by (auto simp: AllowKey_def RedisStore_Allow_def connected_def full_key_def Let_def
        split: option.splits)


lemma run_in_window:
  assumes "connected (lm_store l)" "cfg_Algorithm (lm_config l) = AlgorithmFixedWindow"
    "0 < cfg_Limit (lm_config l)" "cfg_Limit (lm_config l) < 2 ^ 53"
    "db (full_key (lm_store l) key) = Some \<lparr>re_value = Counter v, re_expire_at = Some e\<rparr>"
    "1 \<le> v" "v + int (length envs) \<le> 2 ^ 53"
    "\<forall>env \<in> set envs. \<not> rd_eval_err env \<and> rd_now env < e \<and> e - rd_now env \<le> 2 ^ 53"
    "AllowKey_run tb sw l key envs db = (rs, db')"
  shows "length rs = length envs
     \<and> (\<forall>i < length envs. \<exists>res. rs ! i = Inr res
            \<and> res_Allowed res = (v + int i + 1 \<le> cfg_Limit (lm_config l))
            \<and> (\<not> res_Allowed res \<longrightarrow> 0 < res_RetryAfter res))"
  using assms(5-)
proof (induction envs arbitrary: db v rs db')
  case Nil
  then show ?case by simp
next
  case (Cons env envs)
  let ?k = "full_key (lm_store l) key"
  let ?res = "\<lparr>res_Allowed = (v + 1 \<le> cfg_Limit (lm_config l)), res_Limit = cfg_Limit (lm_config l),
           res_Remaining = (if v + 1 \<le> cfg_Limit (lm_config l) then cfg_Limit (lm_config l) - (v + 1) else 0),
           res_ResetAt = rd_app_now env + (e - rd_now env) * Millisecond,
           res_RetryAfter = (if v + 1 \<le> cfg_Limit (lm_config l) then 0
                             else (e - rd_now env) * Millisecond)\<rparr>"
  let ?db1 = "db(?k \<mapsto> \<lparr>re_value = Counter (v + 1), re_expire_at = Some e\<rparr>)"
  from Cons.prems have env: "\<not> rd_eval_err env" "rd_now env < e" "e - rd_now env \<le> 2 ^ 53"
    and v: "v < 2 ^ 53"
    by auto
  from env(2) have le: "rd_now env \<le> e" by simp
  have fw: "fixedWindow env db ?k (lm_config l) = (Inr ?res, ?db1)"
    by (rule fixedWindow_next [where db = db and k = ?k and v = v and e = e and env = env
          and cfg = "lm_config l", OF Cons.prems(1) le env(3) Cons.prems(2) v env(1)
          assms(3) assms(4)])
  have step: "AllowKey tb sw env l db key = (Inr ?res, ?db1)"
    by (rule AllowKey_fixed [OF assms(1) assms(2) fw])
  obtain rs' where rest: "AllowKey_run tb sw l key envs ?db1 = (rs', db')" and rs: "rs = Inr ?res # rs'"
    using Cons.prems(5) step by (auto split: prod.splits)
  have "length rs' = length envs
     \<and> (\<forall>i < length envs. \<exists>res. rs' ! i = Inr res
            \<and> res_Allowed res = (v + 1 + int i + 1 \<le> cfg_Limit (lm_config l))
            \<and> (\<not> res_Allowed res \<longrightarrow> 0 < res_RetryAfter res))"
    using Cons.prems by (intro Cons.IH [OF _ _ _ _ rest]) auto
  then have len: "length rs' = length envs"
    and tl: "\<And>i. i < length envs \<Longrightarrow> \<exists>res. rs' ! i = Inr res
            \<and> res_Allowed res = (v + 1 + int i + 1 \<le> cfg_Limit (lm_config l))
            \<and> (\<not> res_Allowed res \<longrightarrow> 0 < res_RetryAfter res)"
    by auto
  have hd: "\<exists>res. rs ! 0 = Inr res \<and> res_Allowed res = (v + int 0 + 1 \<le> cfg_Limit (lm_config l))
            \<and> (\<not> res_Allowed res \<longrightarrow> 0 < res_RetryAfter res)"
    using rs env(2) by (simp add: Millisecond_def)
  show ?case
  proof (intro conjI allI impI)
    show "length rs = length (env # envs)" using rs len by simp
  next
    fix i assume i: "i < length (env # envs)"
    show "\<exists>res. rs ! i = Inr res
            \<and> res_Allowed res = (v + int i + 1 \<le> cfg_Limit (lm_config l))
            \<and> (\<not> res_Allowed res \<longrightarrow> 0 < res_RetryAfter res)"
    proof (cases i)
      case 0
      with hd show ?thesis by simp
    next
      case (Suc j)
      with i have "j < length envs" by simp
      from tl [OF this] Suc rs show ?thesis by (simp add: algebra_simps)
    qed
  qed
qed

lemma boundary_run:
  assumes conn: "connected (lm_store l)"
    and alg: "cfg_Algorithm (lm_config l) = AlgorithmFixedWindow"
    and lim: "0 < cfg_Limit (lm_config l)" "cfg_Limit (lm_config l) < 2 ^ 53"
    and win: "0 < Milliseconds (cfg_Window (lm_config l))" "cfg_Window (lm_config l) < 2 ^ 63"
    and len: "length envs = nat (cfg_Limit (lm_config l))"
    and fresh: "redis_live (rd_now env0) db (full_key (lm_store l) key) = None"
    and times: "\<forall>env \<in> set (env0 # envs). \<not> rd_eval_err env
                  \<and> rd_now env0 \<le> rd_now env
                  \<and> rd_now env < rd_now env0 + Milliseconds (cfg_Window (lm_config l))"
    and run: "AllowKey_run tb sw l key (env0 # envs) db = (rs, db')"
  shows "length rs = nat (cfg_Limit (lm_config l)) + 1
     \<and> (\<forall>i < nat (cfg_Limit (lm_config l)). \<exists>res. rs ! i = Inr res \<and> res_Allowed res)
     \<and> (\<exists>res. rs ! nat (cfg_Limit (lm_config l)) = Inr res \<and> \<not> res_Allowed res
            \<and> 0 < res_RetryAfter res)"
proof -
  let ?k = "full_key (lm_store l) key"
  let ?cfg = "lm_config l"
  let ?n = "nat (cfg_Limit ?cfg)"
  let ?e = "rd_now env0 + Milliseconds (cfg_Window ?cfg)"
  let ?res0 = "\<lparr>res_Allowed = True, res_Limit = cfg_Limit ?cfg,
           res_Remaining = cfg_Limit ?cfg - 1,
           res_ResetAt = rd_app_now env0 + Milliseconds (cfg_Window ?cfg) * Millisecond,
           res_RetryAfter = 0\<rparr>"
  let ?db1 = "db(?k \<mapsto> \<lparr>re_value = Counter 1, re_expire_at = Some ?e\<rparr>)"
  from times have e0: "\<not> rd_eval_err env0" by simp
  note wb = Milliseconds_exact [OF win]
  have fw: "fixedWindow env0 db ?k ?cfg = (Inr ?res0, ?db1)"
    by (rule fixedWindow_first [OF fresh e0 win(1) wb lim])
  have step: "AllowKey tb sw env0 l db key = (Inr ?res0, ?db1)"
    by (rule AllowKey_fixed [OF conn alg fw])
  obtain rs' where rest: "AllowKey_run tb sw l key envs ?db1 = (rs', db')"
    and rs: "rs = Inr ?res0 # rs'"
    using run step by (auto split: prod.splits)
  have d1: "?db1 ?k = Some \<lparr>re_value = Counter 1, re_expire_at = Some ?e\<rparr>" by simp
  have bound: "1 + int (length envs) \<le> 2 ^ 53" using len lim by simp
  have tm: "\<forall>env \<in> set envs. \<not> rd_eval_err env \<and> rd_now env < ?e
              \<and> ?e - rd_now env \<le> 2 ^ 53"
    using times wb by auto
  from run_in_window [OF conn alg lim d1 _ bound tm rest]
  have l': "length rs' = length envs"
    and tl: "\<And>i. i < length envs \<Longrightarrow> \<exists>res. rs' ! i = Inr res
            \<and> res_Allowed res = (1 + int i + 1 \<le> cfg_Limit ?cfg)
            \<and> (\<not> res_Allowed res \<longrightarrow> 0 < res_RetryAfter res)"
    by auto
  have a: "length rs = ?n + 1" using rs l' len by simp
  have b: "\<exists>res. rs ! i = Inr res \<and> res_Allowed res" if "i < ?n" for i
  proof (cases i)
    case 0
    with rs show ?thesis by simp
  next
    case (Suc j)
    with that len have j: "j < length envs" by simp
    from tl [OF j] obtain res where "rs' ! j = Inr res"
        "res_Allowed res = (1 + int j + 1 \<le> cfg_Limit ?cfg)" by blast
    moreover have "1 + int j + 1 \<le> cfg_Limit ?cfg" using that Suc by simp
    ultimately show ?thesis using rs Suc by simp
  qed
  have c: "\<exists>res. rs ! ?n = Inr res \<and> \<not> res_Allowed res \<and> 0 < res_RetryAfter res"
  proof -
    from lim obtain j where n: "?n = Suc j" by (cases ?n) auto
    with len have j: "j < length envs" by simp
    from tl [OF j] obtain res where r: "rs' ! j = Inr res"
        "res_Allowed res = (1 + int j + 1 \<le> cfg_Limit ?cfg)"
        "\<not> res_Allowed res \<longrightarrow> 0 < res_RetryAfter res" by blast
    have "\<not> (1 + int j + 1 \<le> cfg_Limit ?cfg)" using n lim by simp
    with r rs n show ?thesis by simp
  qed
  from a b c show ?thesis by blast
qed

text \<open>
  The bounds of \<open>boundary_run\<close> are needed. With a limit of \<open>2^53\<close> the script's doubles
  no longer tell request \<open>limit + 1\<close> from request \<open>limit\<close>, and it is allowed; with a
  window below one millisecond the counter is deleted as soon as it is created, and
  every request is the first.
\<close>

lemma bit_length_54: "bit_length 9007199254740993 = 54"
  by (simp add: bit_length.simps)

lemma lua_number_tie: "lua_number 9007199254740993 = 9007199254740992"
  by (simp add: lua_number_def Let_def bit_length_54)


lemma fixedWindow_limit_2_53:
  "fixedWindow (redis_ok 1000)
      [k \<mapsto> \<lparr>re_value = Counter 9007199254740992, re_expire_at = Some 61000\<rparr>] k
      \<lparr>cfg_Algorithm = AlgorithmFixedWindow, cfg_Limit = 9007199254740992,
        cfg_Window = 60000000000, cfg_Burst = 0\<rparr> =
    (Inr \<lparr>res_Allowed = True, res_Limit = 9007199254740992, res_Remaining = 0,
           res_ResetAt = 1000 * 1000000 + 60000 * Millisecond, res_RetryAfter = 0\<rparr>,
     [k \<mapsto> \<lparr>re_value = Counter 9007199254740993, re_expire_at = Some 61000\<rparr>])"
proof -
  have n: "lua_number 9007199254740992 = 9007199254740992" "lua_number 60000 = 60000"
      "lua_number 0 = 0"
    by (simp_all add: lua_number_exact)
  show ?thesis
    by (simp add: fixedWindow_def fixedWindow_script_def redis_INCR_def redis_PEXPIRE_def
          redis_PTTL_def redis_live_def Let_def redis_ok_def Milliseconds_def quot_def
          lua_number_tie n)
qed

lemma fixedWindow_window_below_millisecond:
  "fixedWindow (redis_ok 1000) Map.empty k
      \<lparr>cfg_Algorithm = AlgorithmFixedWindow, cfg_Limit = 1, cfg_Window = 999999,
        cfg_Burst = 0\<rparr> =
    (Inr \<lparr>res_Allowed = True, res_Limit = 1, res_Remaining = 0,
           res_ResetAt = 1000 * 1000000 + (- 2) * Millisecond, res_RetryAfter = 0\<rparr>,
     Map.empty)"
proof -
  have n: "lua_number 1 = 1" "lua_number 0 = 0" "lua_number (- 2) = - 2"
    by (simp_all add: lua_number_exact)
  show ?thesis
    by (simp add: fixedWindow_def fixedWindow_script_def redis_INCR_def redis_PEXPIRE_def
          redis_PTTL_def redis_live_def Let_def redis_ok_def Milliseconds_def quot_def n)
qed

section \<open>Facts about the token bucket\<close>

lemma example_bucket_facts:
  "connected (lm_store bucket_limiter)"
  "cfg_Algorithm (lm_config bucket_limiter) = AlgorithmTokenBucket"
  "full_key (lm_store bucket_limiter) ''withdraw:user:u1''
     = ''withdraw-api:withdraw:withdraw:user:u1''"
  by (simp_all add: bucket_limiter_def connected_def full_key_def)

lemma tokenBucket_fresh:
  "tokenBucket no_answer (redis_ok 1000) Map.empty k (lm_config bucket_limiter) =
    (Inr \<lparr>res_Allowed = True, res_Limit = 2, res_Remaining = 1,
           res_ResetAt = 61000000000, res_RetryAfter = 0\<rparr>,
     [k \<mapsto> \<lparr>re_value = Bucket 1 1000, re_expire_at = Some 121000\<rparr>])"
  by (simp add: tokenBucket_def tokenBucket_script_def redis_HMGET_def redis_HMSET_def
        redis_PEXPIRE_def redis_live_def Let_def bucket_limiter_def redis_ok_def
        Milliseconds_def quot_def UnixMilli_def Millisecond_def)

lemma tokenBucket_second:
  "tokenBucket no_answer (redis_ok 1000)
      [k \<mapsto> \<lparr>re_value = Bucket 1 1000, re_expire_at = Some 121000\<rparr>] k
      (lm_config bucket_limiter) =
    (Inr \<lparr>res_Allowed = True, res_Limit = 2, res_Remaining = 0,
           res_ResetAt = 61000000000, res_RetryAfter = 0\<rparr>,
     [k \<mapsto> \<lparr>re_value = Bucket 0 1000, re_expire_at = Some 121000\<rparr>])"
  by (simp add: tokenBucket_def tokenBucket_script_def redis_HMGET_def redis_HMSET_def
        redis_PEXPIRE_def redis_live_def Let_def bucket_limiter_def redis_ok_def
        Milliseconds_def quot_def UnixMilli_def Millisecond_def)

lemma tokenBucket_third:
  "tokenBucket no_answer (redis_ok 46000)
      [k \<mapsto> \<lparr>re_value = Bucket 0 1000, re_expire_at = Some 121000\<rparr>] k
      (lm_config bucket_limiter) =
    (Inr \<lparr>res_Allowed = True, res_Limit = 2, res_Remaining = 0,
           res_ResetAt = 106000000000, res_RetryAfter = 0\<rparr>,
     [k \<mapsto> \<lparr>re_value = Bucket (1 / 2) 46000, re_expire_at = Some 166000\<rparr>])"
  by (simp add: tokenBucket_def tokenBucket_script_def redis_HMGET_def redis_HMSET_def
        redis_PEXPIRE_def redis_live_def Let_def bucket_limiter_def redis_ok_def
        Milliseconds_def quot_def UnixMilli_def Millisecond_def
        floor_eq_iff)


lemma AllowKey_bucket:
  assumes "connected (lm_store l)" "cfg_Algorithm (lm_config l) = AlgorithmTokenBucket"
    "tb env db (full_key (lm_store l) key) (lm_config l) = (Inr res, db')"
  shows "AllowKey tb sw env l db key = (Inr res, db')"
  using assms
  by (auto simp: AllowKey_def RedisStore_Allow_def connected_def full_key_def Let_def
        split: option.splits)

section \<open>Facts about the rate-limit middleware\<close>

lemma middleware_denied:
  assumes "rc_Limiter cfg = Some l" "\<not> skipped cfg req"
    "AllowKey tb sw env l db (limit_key cfg req) = (Inr res, db')" "\<not> res_Allowed res"
  shows "\<exists>r. NewHTTPRateLimitMiddleware L tb sw cfg env req db resp = (Respond r, db')
     \<and> rs_status r = 429
     \<and> rs_headers r ''Retry-After''
          = Some (Itoa L (max 1 (Seconds_int L (res_RetryAfter res))))
     \<and> rs_body r = json_Marshal L
          [(''error'', JStr ''rate limit exceeded''),
           (''retry_after'', JInt (max 1 (Seconds_int L (res_RetryAfter res))))]"
  using assms
  by (auto simp: NewHTTPRateLimitMiddleware_def skipped_def limit_key_def Let_def response_defs
        max_def split: option.splits)

text \<open>
  Claim C7, as the code has it. (1) Let the limiter use a connected store and the
  fixed-window algorithm, with a limit between 1 and \<open>2^53 - 1\<close> and a window of at least
  one millisecond (and, as a \<open>time.Duration\<close>, below \<open>2^63\<close> nanoseconds); let the key hold
  no live value at the first request, and let \<open>limit + 1\<close> requests on that key reach the
  store, none failing, all at Redis instants from the first request's instant up to,
  and excluding, that instant plus the window. Then the first \<open>limit\<close> results are
  allowed, and the last is denied with a positive \<open>RetryAfter\<close>. (2) Whatever the
  algorithm, when the limiter denies a request that the middleware does not skip, the
  middleware answers itself, after that single call of the limiter: status 429, a
  \<open>Retry-After\<close> header with the whole seconds of \<open>RetryAfter\<close> (at least 1), and the JSON
  object with "error" = "rate limit exceeded" and "retry_after" = the same number of
  seconds.

  The boundary of (1) is not a property of the token bucket, the algorithm a limiter
  uses unless configured otherwise: its tokens refill during the window.
\<close>

theorem C7_rate_limit_boundary:
  "(connected (lm_store l) \<and> cfg_Algorithm (lm_config l) = AlgorithmFixedWindow
      \<and> 0 < cfg_Limit (lm_config l) \<and> cfg_Limit (lm_config l) < 2 ^ 53
      \<and> 0 < Milliseconds (cfg_Window (lm_config l)) \<and> cfg_Window (lm_config l) < 2 ^ 63
      \<and> length envs = nat (cfg_Limit (lm_config l))
      \<and> redis_live (rd_now env0) db (full_key (lm_store l) key) = None
      \<and> (\<forall>env \<in> set (env0 # envs). \<not> rd_eval_err env
             \<and> rd_now env0 \<le> rd_now env
             \<and> rd_now env < rd_now env0 + Milliseconds (cfg_Window (lm_config l))) \<longrightarrow>
      (case AllowKey_run tb sw l key (env0 # envs) db of
         (rs, db') \<Rightarrow>
           length rs = nat (cfg_Limit (lm_config l)) + 1
           \<and> (\<forall>i < nat (cfg_Limit (lm_config l)). \<exists>res. rs ! i = Inr res \<and> res_Allowed res)
           \<and> (\<exists>res. rs ! nat (cfg_Limit (lm_config l)) = Inr res \<and> \<not> res_Allowed res
                  \<and> 0 < res_RetryAfter res)))
   \<and> (rc_Limiter cfg = Some l' \<and> \<not> skipped cfg req
      \<and> AllowKey tb sw env l' db1 (limit_key cfg req) = (Inr res, db2)
      \<and> \<not> res_Allowed res \<longrightarrow>
      (\<exists>r. NewHTTPRateLimitMiddleware L tb sw cfg env req db1 resp = (Respond r, db2)
         \<and> rs_status r = 429
         \<and> rs_headers r ''Retry-After''
             = Some (Itoa L (max 1 (Seconds_int L (res_RetryAfter res))))
         \<and> rs_body r = json_Marshal L
             [(''error'', JStr ''rate limit exceeded''),
              (''retry_after'', JInt (max 1 (Seconds_int L (res_RetryAfter res))))]))"
proof (intro conjI impI)
  assume h: "connected (lm_store l) \<and> cfg_Algorithm (lm_config l) = AlgorithmFixedWindow
      \<and> 0 < cfg_Limit (lm_config l) \<and> cfg_Limit (lm_config l) < 2 ^ 53
      \<and> 0 < Milliseconds (cfg_Window (lm_config l)) \<and> cfg_Window (lm_config l) < 2 ^ 63
      \<and> length envs = nat (cfg_Limit (lm_config l))
      \<and> redis_live (rd_now env0) db (full_key (lm_store l) key) = None
      \<and> (\<forall>env \<in> set (env0 # envs). \<not> rd_eval_err env
             \<and> rd_now env0 \<le> rd_now env
             \<and> rd_now env < rd_now env0 + Milliseconds (cfg_Window (lm_config l)))"
  obtain rs db' where run: "AllowKey_run tb sw l key (env0 # envs) db = (rs, db')"
    by (cases "AllowKey_run tb sw l key (env0 # envs) db")
  from h have f: "connected (lm_store l)" "cfg_Algorithm (lm_config l) = AlgorithmFixedWindow"
      "0 < cfg_Limit (lm_config l)" "cfg_Limit (lm_config l) < 2 ^ 53"
      "0 < Milliseconds (cfg_Window (lm_config l))" "cfg_Window (lm_config l) < 2 ^ 63"
      "length envs = nat (cfg_Limit (lm_config l))"
      "redis_live (rd_now env0) db (full_key (lm_store l) key) = None"
      "\<forall>env \<in> set (env0 # envs). \<not> rd_eval_err env
             \<and> rd_now env0 \<le> rd_now env
             \<and> rd_now env < rd_now env0 + Milliseconds (cfg_Window (lm_config l))"
    by blast+
  note b = boundary_run [OF f run]
  show "case AllowKey_run tb sw l key (env0 # envs) db of
         (rs, db') \<Rightarrow>
           length rs = nat (cfg_Limit (lm_config l)) + 1
           \<and> (\<forall>i < nat (cfg_Limit (lm_config l)). \<exists>res. rs ! i = Inr res \<and> res_Allowed res)
           \<and> (\<exists>res. rs ! nat (cfg_Limit (lm_config l)) = Inr res \<and> \<not> res_Allowed res
                  \<and> 0 < res_RetryAfter res)"
    unfolding run prod.case by (rule b)
next
  assume "rc_Limiter cfg = Some l' \<and> \<not> skipped cfg req
      \<and> AllowKey tb sw env l' db1 (limit_key cfg req) = (Inr res, db2)
      \<and> \<not> res_Allowed res"
  then have "rc_Limiter cfg = Some l'" "\<not> skipped cfg req"
      "AllowKey tb sw env l' db1 (limit_key cfg req) = (Inr res, db2)" "\<not> res_Allowed res"
    by simp_all
  then show "\<exists>r. NewHTTPRateLimitMiddleware L tb sw cfg env req db1 resp = (Respond r, db2)
         \<and> rs_status r = 429
         \<and> rs_headers r ''Retry-After''
             = Some (Itoa L (max 1 (Seconds_int L (res_RetryAfter res))))
         \<and> rs_body r = json_Marshal L
             [(''error'', JStr ''rate limit exceeded''),
              (''retry_after'', JInt (max 1 (Seconds_int L (res_RetryAfter res))))]"
    by (rule middleware_denied)
qed

lemma example_limiter_facts:
  "connected (lm_store example_limiter)"
  "cfg_Algorithm (lm_config example_limiter) = AlgorithmFixedWindow"
  "cfg_Limit (lm_config example_limiter) = 2"
  "Milliseconds (cfg_Window (lm_config example_limiter)) = 60000"
  by (simp_all add: example_limiter_def connected_def Milliseconds_def quot_def)

lemma example_denied:
  "AllowKey fixedWindow fixedWindow (redis_ok 31000) example_limiter used_up_redis
     (limit_key example_rl_config example_request) =
   (Inr \<lparr>res_Allowed = False, res_Limit = 2, res_Remaining = 0,
          res_ResetAt = 31000 * 1000000 + 30000 * Millisecond,
          res_RetryAfter = 30000 * Millisecond\<rparr>,
    used_up_redis(example_redis_key \<mapsto> \<lparr>re_value = Counter 3, re_expire_at = Some 61000\<rparr>))"
proof -
  have "fixedWindow (redis_ok 31000) used_up_redis
      (full_key (lm_store example_limiter) (limit_key example_rl_config example_request))
      (lm_config example_limiter) =
   (Inr \<lparr>res_Allowed = False, res_Limit = 2, res_Remaining = 0,
          res_ResetAt = 31000 * 1000000 + 30000 * Millisecond,
          res_RetryAfter = 30000 * Millisecond\<rparr>,
    used_up_redis(example_redis_key \<mapsto> \<lparr>re_value = Counter 3, re_expire_at = Some 61000\<rparr>))"
    using fixedWindow_next [where db = used_up_redis and k = example_redis_key and v = 2
        and e = 61000 and env = "redis_ok 31000" and cfg = "lm_config example_limiter"]
    by (simp add: used_up_redis_def redis_ok_def example_limiter_facts
          example_redis_key_def [symmetric])
  then show ?thesis
    by (rule AllowKey_fixed [OF example_limiter_facts(1) example_limiter_facts(2)])
qed

lemma thirty_seconds:
  "Itoa example_lib (max 1 (Seconds_int example_lib (30000 * Millisecond))) = ''30''"
  by code_simp

theorem C7_witness:
  "(\<exists>res. fst (AllowKey_run fixedWindow fixedWindow example_limiter ''withdraw:user:u1''
               [redis_ok 1000, redis_ok 1000, redis_ok 31000] Map.empty) ! 2 = Inr res
          \<and> \<not> res_Allowed res \<and> 0 < res_RetryAfter res)
   \<and> (\<exists>r. fst (NewHTTPRateLimitMiddleware example_lib fixedWindow fixedWindow example_rl_config
                  (redis_ok 31000) example_request used_up_redis fresh_response) = Respond r
          \<and> rs_status r = 429 \<and> rs_headers r ''Retry-After'' = Some ''30'')"
proof -
  note C7 = C7_rate_limit_boundary [where tb = fixedWindow and sw = fixedWindow]
  obtain rs db' where run: "AllowKey_run fixedWindow fixedWindow example_limiter
      ''withdraw:user:u1'' (redis_ok 1000 # [redis_ok 1000, redis_ok 31000]) Map.empty = (rs, db')"
    by (cases "AllowKey_run fixedWindow fixedWindow example_limiter
      ''withdraw:user:u1'' (redis_ok 1000 # [redis_ok 1000, redis_ok 31000]) Map.empty")
  have t: "\<forall>env \<in> set (redis_ok 1000 # [redis_ok 1000, redis_ok 31000]). \<not> rd_eval_err env
             \<and> rd_now (redis_ok 1000) \<le> rd_now env
             \<and> rd_now env < rd_now (redis_ok 1000)
                 + Milliseconds (cfg_Window (lm_config example_limiter))"
    by (simp add: redis_ok_def example_limiter_facts)
  have fr: "redis_live (rd_now (redis_ok 1000)) Map.empty
      (full_key (lm_store example_limiter) ''withdraw:user:u1'') = None"
    by (simp add: redis_live_def)
  have w: "cfg_Window (lm_config example_limiter) < 2 ^ 63"
    by (simp add: example_limiter_def)
  from C7 [where l = example_limiter and key = "''withdraw:user:u1''" and ?env0.0 = "redis_ok 1000"
      and envs = "[redis_ok 1000, redis_ok 31000]" and db = Map.empty, THEN conjunct1]
    example_limiter_facts t fr w
  have a: "\<exists>res. rs ! 2 = Inr res \<and> \<not> res_Allowed res \<and> 0 < res_RetryAfter res"
    unfolding run by simp
  have lm: "rc_Limiter example_rl_config = Some example_limiter"
    and sk: "\<not> skipped example_rl_config example_request"
    by (simp_all add: example_rl_config_def skipped_def)
  from C7 [where cfg = example_rl_config and l' = example_limiter and req = example_request
      and env = "redis_ok 31000" and ?db1.0 = used_up_redis and L = example_lib
      and resp = fresh_response
      and res = "\<lparr>res_Allowed = False, res_Limit = 2, res_Remaining = 0,
          res_ResetAt = 31000 * 1000000 + 30000 * Millisecond,
          res_RetryAfter = 30000 * Millisecond\<rparr>"
      and ?db2.0 = "used_up_redis(example_redis_key \<mapsto>
          \<lparr>re_value = Counter 3, re_expire_at = Some 61000\<rparr>)", THEN conjunct2]
    lm sk example_denied
  have b: "\<exists>r. fst (NewHTTPRateLimitMiddleware example_lib fixedWindow fixedWindow example_rl_config
                  (redis_ok 31000) example_request used_up_redis fresh_response) = Respond r
          \<and> rs_status r = 429 \<and> rs_headers r ''Retry-After'' = Some ''30''"
    by (auto simp: thirty_seconds)
  from a b run show ?thesis by simp
qed

lemma bucket_run:
  "AllowKey_run (tokenBucket no_answer) no_answer bucket_limiter ''withdraw:user:u1''
       [redis_ok 1000, redis_ok 1000, redis_ok 46000] Map.empty =
     ([Inr \<lparr>res_Allowed = True, res_Limit = 2, res_Remaining = 1,
             res_ResetAt = 61000000000, res_RetryAfter = 0\<rparr>,
       Inr \<lparr>res_Allowed = True, res_Limit = 2, res_Remaining = 0,
             res_ResetAt = 61000000000, res_RetryAfter = 0\<rparr>,
       Inr \<lparr>res_Allowed = True, res_Limit = 2, res_Remaining = 0,
             res_ResetAt = 106000000000, res_RetryAfter = 0\<rparr>],
      [''withdraw-api:withdraw:withdraw:user:u1'' \<mapsto>
         \<lparr>re_value = Bucket (1 / 2) 46000, re_expire_at = Some 166000\<rparr>])"
proof -
  note ak = AllowKey_bucket [OF example_bucket_facts(1) example_bucket_facts(2),
      where key = "''withdraw:user:u1''" and tb = "tokenBucket no_answer" and sw = no_answer,
      unfolded example_bucket_facts(3)]
  note s1 = ak [OF tokenBucket_fresh]
  note s2 = ak [OF tokenBucket_second]
  note s3 = ak [OF tokenBucket_third]
  show ?thesis by (simp add: s1 s2 s3)
qed

text \<open>
  The sentence of C7 fails for the token bucket. \<open>ratelimit.New\<close> with no algorithm and no
  burst configured gives the token-bucket limiter of limit 2, burst 2 and a window of
  60 seconds; on a fresh key, requests at the instants 1000, 1000 and 46000 milliseconds
  lie in one window, and the third, the \<open>(limit + 1)\<close>th, is allowed: in the 45 seconds
  since the second request the bucket has gained one and a half tokens.
\<close>

theorem C7_counterexample:
  "ratelimit_New (lm_store bucket_limiter)
       \<lparr>cfg_Algorithm = [], cfg_Limit = 2, cfg_Window = 60000000000, cfg_Burst = 0\<rparr>
     = Inr bucket_limiter
   \<and> rd_now (redis_ok 46000)
       < rd_now (redis_ok 1000) + Milliseconds (cfg_Window (lm_config bucket_limiter))
   \<and> fst (AllowKey_run (tokenBucket no_answer) no_answer bucket_limiter ''withdraw:user:u1''
            [redis_ok 1000, redis_ok 1000, redis_ok 46000] Map.empty) =
       [Inr \<lparr>res_Allowed = True, res_Limit = 2, res_Remaining = 1,
              res_ResetAt = 61000000000, res_RetryAfter = 0\<rparr>,
        Inr \<lparr>res_Allowed = True, res_Limit = 2, res_Remaining = 0,
              res_ResetAt = 61000000000, res_RetryAfter = 0\<rparr>,
        Inr \<lparr>res_Allowed = True, res_Limit = 2, res_Remaining = 0,
              res_ResetAt = 106000000000, res_RetryAfter = 0\<rparr>]"
proof -
  have a: "ratelimit_New (lm_store bucket_limiter)
       \<lparr>cfg_Algorithm = [], cfg_Limit = 2, cfg_Window = 60000000000, cfg_Burst = 0\<rparr>
     = Inr bucket_limiter"
    by (simp add: ratelimit_New_def bucket_limiter_def)
  have b: "rd_now (redis_ok 46000)
       < rd_now (redis_ok 1000) + Milliseconds (cfg_Window (lm_config bucket_limiter))"
    by (simp add: bucket_limiter_def redis_ok_def Milliseconds_def quot_def)
  from a b show ?thesis by (simp only: bucket_run fst_conv simp_thms)
qed

section \<open>Facts about selection by configuration string\<close>

text \<open>
  Claim C8, as the code has it. The rate-limit selectors are total with a fixed default:
  \<open>parseRateLimitAlgorithm\<close> always returns one of the three algorithm names, and the
  token bucket whenever the lower-cased, trimmed string is neither "sliding_window" nor
  "fixed_window"; \<open>RedisStore.Allow\<close> on a connected store runs the token bucket for every
  algorithm name that is none of the three. The hashing selector has no default:
  \<open>hash.New\<close> returns the unknown-strategy error for every strategy other than "bcrypt".
\<close>

theorem C8_selection_by_string:
  "parseRateLimitAlgorithm L v
      \<in> {AlgorithmTokenBucket, AlgorithmSlidingWindow, AlgorithmFixedWindow}
   \<and> (TrimSpace L (ToLower L v) \<noteq> ''sliding_window''
        \<and> TrimSpace L (ToLower L v) \<noteq> ''fixed_window'' \<longrightarrow>
        parseRateLimitAlgorithm L v = AlgorithmTokenBucket)
   \<and> (connected s \<and> cfg_Algorithm config \<noteq> AlgorithmTokenBucket
        \<and> cfg_Algorithm config \<noteq> AlgorithmSlidingWindow
        \<and> cfg_Algorithm config \<noteq> AlgorithmFixedWindow \<longrightarrow>
        RedisStore_Allow tb sw env s db key config = tb env db (full_key s key) config)
   \<and> (ho_Strategy opts \<noteq> StrategyBcrypt \<longrightarrow>
        hash_New opts = Inl (ErrUnknownStrategy (ho_Strategy opts)))"
  by (auto simp: parseRateLimitAlgorithm_def RedisStore_Allow_def hash_New_def connected_def
        full_key_def Let_def split: option.splits)

lemma example_unknown_algorithm:
  "TrimSpace example_lib (ToLower example_lib '' Leaky_Bucket '') = ''leaky_bucket''"
  by code_simp

theorem C8_witness:
  "parseRateLimitAlgorithm example_lib '' Leaky_Bucket '' = AlgorithmTokenBucket
   \<and> RedisStore_Allow fixedWindow fixedWindow (redis_ok 5) (lm_store example_limiter) Map.empty
        ''k'' \<lparr>cfg_Algorithm = ''leaky_bucket'', cfg_Limit = 2, cfg_Window = 1000000000,
                cfg_Burst = 2\<rparr>
      = fixedWindow (redis_ok 5) Map.empty (full_key (lm_store example_limiter) ''k'')
          \<lparr>cfg_Algorithm = ''leaky_bucket'', cfg_Limit = 2, cfg_Window = 1000000000,
            cfg_Burst = 2\<rparr>
   \<and> hash_New \<lparr>ho_Strategy = ''md5'', ho_Cost = 0\<rparr> = Inl (ErrUnknownStrategy ''md5'')"
  using C8_selection_by_string [where L = example_lib and v = "'' Leaky_Bucket ''"
      and s = "lm_store example_limiter" and tb = fixedWindow and sw = fixedWindow
      and env = "redis_ok 5" and db = Map.empty and key = "''k''"
      and config = "\<lparr>cfg_Algorithm = ''leaky_bucket'', cfg_Limit = 2, cfg_Window = 1000000000,
                cfg_Burst = 2\<rparr>"
      and opts = "\<lparr>ho_Strategy = ''md5'', ho_Cost = 0\<rparr>"]
    example_unknown_algorithm example_limiter_facts(1)
  by simp

theorem C8_counterexample:
  "''md5'' \<noteq> StrategyBcrypt
   \<and> isl (hash_New \<lparr>ho_Strategy = ''md5'', ho_Cost = 0\<rparr>)
   \<and> hash_New \<lparr>ho_Strategy = ''md5'', ho_Cost = 0\<rparr> = Inl (ErrUnknownStrategy ''md5'')"
  by (simp add: hash_New_def)

end
